theory Spec2Isabelle
  imports Complex_Main "HOL-Library.AList" "HOL-Library.Multiset"
begin

section \<open>Errors, dense arrays and sequential sparse matrices\<close>

text \<open>
  The development follows \<^verbatim>\<open>firedrake/preconditioners/fdm.py\<close>.  Floating point
  numbers are modelled by exact reals.  A Python exception is a value of \<open>error\<close>;
  a function that may raise returns \<open>error + 'a\<close> with \<open>Inl\<close> for the exception.
\<close>

datatype error =
  IndexError | ValueError | AssertionError | NotImplementedError | ZeroDivisionError | PetscError

definition bind_err :: "error + 'a \<Rightarrow> ('a \<Rightarrow> error + 'b) \<Rightarrow> error + 'b" where
  "bind_err m f = (case m of Inl e \<Rightarrow> Inl e | Inr v \<Rightarrow> f v)"

text \<open>
  A two-dimensional \<^verbatim>\<open>numpy.ndarray\<close> is a list of rows.  \<open>mk_array r c f\<close> is the
  array of shape \<open>(r, c)\<close> whose entry \<open>[i, j]\<close> is \<open>f i j\<close>; \<open>shape0\<close> and
  \<open>shape1\<close> read \<^verbatim>\<open>A.shape[0]\<close> and \<^verbatim>\<open>A.shape[1]\<close>.
\<close>

type_synonym ndarray2 = "real list list"

definition mk_array :: "nat \<Rightarrow> nat \<Rightarrow> (nat \<Rightarrow> nat \<Rightarrow> 'a) \<Rightarrow> 'a list list" where
  "mk_array r c f = map (\<lambda>i. map (\<lambda>j. f i j) [0..<c]) [0..<r]"

definition shape0 :: "'a list list \<Rightarrow> nat" where
  "shape0 A = length A"

definition shape1 :: "'a list list \<Rightarrow> nat" where
  "shape1 A = (case A of [] \<Rightarrow> 0 | r # _ \<Rightarrow> length r)"

definition is_array :: "nat \<Rightarrow> nat \<Rightarrow> 'a list list \<Rightarrow> bool" where
  "is_array r c A = (length A = r \<and> list_all (\<lambda>row. length row = c) A)"

text \<open>\<^verbatim>\<open>numpy.eye(n)\<close>, \<^verbatim>\<open>A.T\<close>, \<^verbatim>\<open>numpy.dot(X, Y)\<close> and
  \<^verbatim>\<open>numpy.multiply(D, w)\<close> (the vector \<open>w\<close> broadcast along the rows).  numpy raises
  on operands whose shapes do not fit; the arrays of this file are built with
  fitting shapes, which the theorems state as hypotheses on the tabulations.\<close>

definition eye :: "nat \<Rightarrow> ndarray2" where
  "eye n = mk_array n n (\<lambda>i j. if i = j then 1 else 0)"

definition transpose_arr :: "ndarray2 \<Rightarrow> ndarray2" where
  "transpose_arr X = mk_array (shape1 X) (shape0 X) (\<lambda>i j. X ! j ! i)"

definition dot :: "ndarray2 \<Rightarrow> ndarray2 \<Rightarrow> ndarray2" where
  "dot X Y = mk_array (shape0 X) (shape1 Y)
     (\<lambda>i j. sum_list (map (\<lambda>k. X ! i ! k * Y ! k ! j) [0..<shape0 Y]))"

definition multiply :: "ndarray2 \<Rightarrow> real list \<Rightarrow> ndarray2" where
  "multiply D w = mk_array (shape0 D) (shape1 D) (\<lambda>i q. D ! i ! q * w ! q)"

text \<open>
  A sequential PETSc \<^verbatim>\<open>AIJ\<close> matrix: its shape and its stored entries.  An entry
  that was never set is not stored (\<open>None\<close>) and reads as zero.  \<open>setValue\<close> is
  \<^verbatim>\<open>Mat.setValue(i, j, v, imode)\<close>: \<open>INSERT\<close> replaces the stored value,
  \<open>ADD_VALUES\<close> adds to it.
\<close>

datatype insert_mode = INSERT | ADD_VALUES

record aij =
  aij_shape :: "nat \<times> nat"
  aij_ent :: "nat \<times> nat \<Rightarrow> real option"

definition createAIJ :: "nat \<times> nat \<Rightarrow> aij" where
  "createAIJ sh = \<lparr>aij_shape = sh, aij_ent = (\<lambda>_. None)\<rparr>"

definition setValue :: "aij \<Rightarrow> nat \<Rightarrow> nat \<Rightarrow> real \<Rightarrow> insert_mode \<Rightarrow> aij" where
  "setValue M i j v imode =
     M\<lparr>aij_ent := (aij_ent M)((i, j) \<mapsto>
        (case imode of
           INSERT \<Rightarrow> v
         | ADD_VALUES \<Rightarrow> (case aij_ent M (i, j) of None \<Rightarrow> v | Some w \<Rightarrow> w + v)))\<rparr>"

text \<open>\<^verbatim>\<open>Mat.setValues(j, idx, vals, imode)\<close> for one row and
  \<^verbatim>\<open>Mat.setValues(idx, j, vals, imode)\<close> for one column.\<close>

definition setValues_row :: "aij \<Rightarrow> nat \<Rightarrow> nat list \<Rightarrow> real list \<Rightarrow> insert_mode \<Rightarrow> aij" where
  "setValues_row M j idx vals imode = fold (\<lambda>(c, v) M'. setValue M' j c v imode) (zip idx vals) M"

definition setValues_col :: "aij \<Rightarrow> nat list \<Rightarrow> nat \<Rightarrow> real list \<Rightarrow> insert_mode \<Rightarrow> aij" where
  "setValues_col M idx j vals imode = fold (\<lambda>(r, v) M'. setValue M' r j v imode) (zip idx vals) M"

definition aij_val :: "aij \<Rightarrow> nat \<Rightarrow> nat \<Rightarrow> real" where
  "aij_val M i j = (case aij_ent M (i, j) of None \<Rightarrow> 0 | Some v \<Rightarrow> v)"

definition stored :: "aij \<Rightarrow> nat \<Rightarrow> nat \<Rightarrow> bool" where
  "stored M i j = (aij_ent M (i, j) \<noteq> None)"

section \<open>\<^verbatim>\<open>numpy_to_petsc\<close>\<close>

text \<open>
  \<^verbatim>\<open>numpy_to_petsc(A_numpy, dense_indices, diag=True)\<close> keeps the diagonal (when
  \<open>diag\<close>) and the rows and columns listed in \<open>dense_indices\<close>; with no dense index
  it keeps the two corners \<open>(0, n-1)\<close> and \<open>(n-1, 0)\<close> instead.  The column
  \<open>j\<close> is written with \<^verbatim>\<open>A_numpy[:][j]\<close>, which is the row \<open>A_numpy[j]\<close>.
  The preallocation array \<^verbatim>\<open>nnz\<close> holds no value of the result; its two indexed
  assignments raise \<open>IndexError\<close> on a dense index out of range and on an empty
  array, as does \<^verbatim>\<open>A_numpy[0][-1]\<close> on an array without columns.
\<close>

definition numpy_to_petsc :: "ndarray2 \<Rightarrow> nat list \<Rightarrow> bool \<Rightarrow> error + aij" where
  "numpy_to_petsc A_numpy dense_indices diag =
     (let n = shape0 A_numpy;
          A_petsc = createAIJ (shape0 A_numpy, shape1 A_numpy);
          A_diag = (if diag
                    then fold (\<lambda>j M. setValue M j j (A_numpy ! j ! j) INSERT)
                           [0..<min n (shape1 A_numpy)] A_petsc
                    else A_petsc)
      in if dense_indices \<noteq> [] then
           (if list_ex (\<lambda>j. n \<le> j) dense_indices then Inl IndexError
            else
              (let idx = [0..<n]
               in Inr (fold (\<lambda>j M. setValues_col (setValues_row M j idx (A_numpy ! j) INSERT)
                                      idx j (A_numpy ! j) INSERT)
                         dense_indices A_diag)))
         else if n = 0 \<or> shape1 A_numpy = 0 then Inl IndexError
         else Inr (setValue (setValue A_diag 0 (n - 1) (last (A_numpy ! 0)) INSERT)
                     (n - 1) 0 (hd (last A_numpy)) INSERT))"

section \<open>The interval matrices of the fast diagonalization method\<close>

text \<open>
  FIAT and \<^verbatim>\<open>numpy.linalg\<close> are outside this repository.  \<open>fiat_line\<close> holds
  what \<^verbatim>\<open>GaussLobattoLegendre(ref_el, degree)\<close> tabulates: the shape functions
  and their first derivatives on the points of
  \<^verbatim>\<open>GaussLegendreQuadratureLineRule(ref_el, degree+1)\<close>, the weights of the rule,
  the nodes, and the first derivatives on the two vertices of the cell.  \<open>linalg\<close>
  holds the three routines of \<^verbatim>\<open>numpy.linalg\<close> that \<^verbatim>\<open>sym_eig\<close> calls.
\<close>

record fiat_line =
  tab_J :: ndarray2
  tab_D :: ndarray2
  weights :: "real list"
  nodes :: "real list"
  vert_D :: ndarray2

record linalg =
  cholesky :: "ndarray2 \<Rightarrow> ndarray2"
  inv :: "ndarray2 \<Rightarrow> ndarray2"
  eigh :: "ndarray2 \<Rightarrow> real list \<times> ndarray2"

definition sym_eig :: "linalg \<Rightarrow> ndarray2 \<Rightarrow> ndarray2 \<Rightarrow> real list \<times> ndarray2" where
  "sym_eig la A B =
     (let L = cholesky la B;
          Linv = inv la L;
          C = dot Linv (dot A (transpose_arr Linv));
          (Z, W) = eigh la C;
          V = dot (transpose_arr Linv) W
      in (Z, V))"

text \<open>
  What \<^verbatim>\<open>numpy.linalg\<close> promises for a symmetric matrix \<open>A\<close> and a symmetric
  positive definite matrix \<open>B\<close> of the same size, in exact arithmetic, on the
  calls that \<open>sym_eig la A B\<close> makes: \<^verbatim>\<open>cholesky(B)\<close> is a factor \<open>L\<close> with
  \<open>L L\<^sup>T = B\<close>, \<^verbatim>\<open>inv(L)\<close> is its inverse, and \<^verbatim>\<open>eigh(C)\<close> is a pair
  \<open>(Z, W)\<close> of eigenvalues and orthonormal eigenvectors, \<open>W\<^sup>T W = I\<close> and
  \<open>W\<^sup>T C W = diag Z\<close>.  \<open>diag_array\<close> is \<^verbatim>\<open>numpy.diag\<close> of a vector.
\<close>

definition diag_array :: "real list \<Rightarrow> ndarray2" where
  "diag_array Z = mk_array (length Z) (length Z) (\<lambda>i j. if i = j then Z ! i else 0)"

definition linalg_exact :: "linalg \<Rightarrow> ndarray2 \<Rightarrow> ndarray2 \<Rightarrow> bool" where
  "linalg_exact la A B =
     (let m = shape0 B;
          L = cholesky la B;
          Linv = inv la L;
          C = dot Linv (dot A (transpose_arr Linv));
          (Z, W) = eigh la C
      in is_array m m L \<and> dot L (transpose_arr L) = B \<and>
         is_array m m Linv \<and> dot Linv L = eye m \<and>
         is_array m m W \<and> length Z = m \<and>
         dot (transpose_arr W) W = eye m \<and>
         dot (transpose_arr W) (dot C W) = diag_array Z)"

definition semhat :: "fiat_line \<Rightarrow> ndarray2 \<times> ndarray2 \<times> ndarray2 \<times> ndarray2 \<times> real list" where
  "semhat el =
     (let Jhat = tab_J el;
          Dhat = tab_D el;
          what = weights el;
          Ahat = dot (multiply Dhat what) (transpose_arr Dhat);
          Bhat = dot (multiply Jhat what) (transpose_arr Jhat);
          xhat = nodes el
      in (Ahat, Bhat, Jhat, Dhat, xhat))"

text \<open>The interior block \<^verbatim>\<open>A[kd, kd]\<close> with \<^verbatim>\<open>kd = slice(1, -1)\<close>, the two outer
  columns of the interior rows \<^verbatim>\<open>A[kd, rd]\<close> and the corner block
  \<^verbatim>\<open>A[numpy.ix_(rd, rd)]\<close> with \<^verbatim>\<open>rd = (0, -1)\<close>, for an array of \<open>n > 2\<close> rows.\<close>

definition sub_kk :: "ndarray2 \<Rightarrow> ndarray2" where
  "sub_kk A = mk_array (shape0 A - 2) (shape1 A - 2) (\<lambda>i j. A ! Suc i ! Suc j)"

definition sub_kr :: "ndarray2 \<Rightarrow> ndarray2" where
  "sub_kr A = mk_array (shape0 A - 2) 2 (\<lambda>i j. A ! Suc i ! (if j = 0 then 0 else shape1 A - 1))"

definition sub_rr :: "ndarray2 \<Rightarrow> ndarray2" where
  "sub_rr A = mk_array 2 2 (\<lambda>i j. A ! (if i = 0 then 0 else shape0 A - 1)
                                      ! (if j = 0 then 0 else shape1 A - 1))"

definition negative :: "ndarray2 \<Rightarrow> ndarray2" where
  "negative A = map (map uminus) A"

text \<open>
  \<^verbatim>\<open>fdm_setup(ref_el, degree)\<close>.  \<open>fdm_basis\<close> is the part that builds
  \<^verbatim>\<open>Sfdm\<close> (the identity, then for more than two nodes the eigenvectors of the
  interior block and the correction of the two outer columns), and
  \<open>facet_derivative\<close> the part that tabulates the normal derivatives: the
  derivative at the first vertex changes sign before the change of basis.
\<close>

definition fdm_basis :: "linalg \<Rightarrow> ndarray2 \<Rightarrow> ndarray2 \<Rightarrow> ndarray2" where
  "fdm_basis la Ahat Bhat =
     (let n = shape0 Ahat
      in if 2 < n then
           (let (_, V) = sym_eig la (sub_kk Ahat) (sub_kk Bhat);
                S1 = mk_array n n
                       (\<lambda>i j. if 1 \<le> i \<and> i < n - 1 \<and> 1 \<le> j \<and> j < n - 1
                              then V ! (i - 1) ! (j - 1) else eye n ! i ! j);
                Skk = sub_kk S1;
                Srr = sub_rr S1;
                R = dot Skk (dot (dot (transpose_arr Skk) (sub_kr Bhat)) (negative Srr))
            in mk_array n n
                 (\<lambda>i j. if 1 \<le> i \<and> i < n - 1 \<and> (j = 0 \<or> j = n - 1)
                        then R ! (i - 1) ! (if j = 0 then 0 else 1) else S1 ! i ! j))
         else eye n)"

definition flip_first_column :: "ndarray2 \<Rightarrow> ndarray2" where
  "flip_first_column D = mk_array (shape0 D) (shape1 D)
     (\<lambda>i j. if j = 0 then - (D ! i ! 0) else D ! i ! j)"

definition facet_derivative :: "fiat_line \<Rightarrow> ndarray2 \<Rightarrow> ndarray2" where
  "facet_derivative elem Sfdm =
     (let Dfacet = vert_D elem;
          Dfacet = flip_first_column Dfacet
      in dot (transpose_arr Sfdm) Dfacet)"

definition fdm_setup ::
  "linalg \<Rightarrow> (nat \<Rightarrow> fiat_line) \<Rightarrow> nat \<Rightarrow> ndarray2 \<times> ndarray2 \<times> ndarray2 \<times> ndarray2" where
  "fdm_setup la fiat degree =
     (let elem = fiat degree;
          (Ahat, Bhat, _, _, _) = semhat elem;
          Sfdm = fdm_basis la Ahat Bhat;
          Dfdm = facet_derivative elem Sfdm
      in (Ahat, Bhat, Sfdm, Dfdm))"

text \<open>
  A Python slice bound \<open>k\<close> against a length \<open>n\<close>: a negative bound counts from the
  end, and the result is clamped into \<open>0..n\<close>.
\<close>

definition slice_bound :: "int \<Rightarrow> nat \<Rightarrow> nat" where
  "slice_bound k n = (if k < 0 then nat (int n + k) else min (nat k) n)"

definition diagonal :: "ndarray2 \<Rightarrow> real list" where
  "diagonal A = map (\<lambda>i. A ! i ! i) [0..<min (shape0 A) (shape1 A)]"

definition fill_diagonal :: "ndarray2 \<Rightarrow> real list \<Rightarrow> ndarray2" where
  "fill_diagonal A a = mk_array (shape0 A) (shape1 A) (\<lambda>i j. if i = j then a ! i else A ! i ! j)"

text \<open>
  \<^verbatim>\<open>apply_strong_bcs(Ahat, bc0, bc1)\<close> of \<^verbatim>\<open>fdm_setup_cg\<close>.
  \<open>strong_bcs_array\<close> is the array \<open>A\<close> before the call of
  \<^verbatim>\<open>numpy_to_petsc\<close>: the square block \<^verbatim>\<open>A[kk, kk]\<close> with
  \<^verbatim>\<open>kk = slice(k0, k1)\<close> is set to zero and the diagonal is restored.
  \<^verbatim>\<open>A.shape[0]-1\<close> is \<open>-1\<close> on an empty array, where the call of
  \<^verbatim>\<open>numpy_to_petsc\<close> raises \<open>IndexError\<close>; so it does here, the dense index
  \<open>0\<close> being out of range.
\<close>

definition strong_bcs_array :: "ndarray2 \<Rightarrow> nat \<Rightarrow> nat \<Rightarrow> ndarray2" where
  "strong_bcs_array Ahat bc0 bc1 =
     (let k0 = (if bc0 = 1 then 0 else 1);
          k1 = (if bc1 = 1 then int (shape0 Ahat) else - 1);
          lo0 = slice_bound k0 (shape0 Ahat); hi0 = slice_bound k1 (shape0 Ahat);
          lo1 = slice_bound k0 (shape1 Ahat); hi1 = slice_bound k1 (shape1 Ahat);
          a = diagonal Ahat;
          A = mk_array (shape0 Ahat) (shape1 Ahat)
                (\<lambda>i j. if lo0 \<le> i \<and> i < hi0 \<and> lo1 \<le> j \<and> j < hi1 then 0 else Ahat ! i ! j)
      in fill_diagonal A a)"

definition apply_strong_bcs :: "ndarray2 \<Rightarrow> nat \<Rightarrow> nat \<Rightarrow> error + aij" where
  "apply_strong_bcs Ahat bc0 bc1 =
     (let A = strong_bcs_array Ahat bc0 bc1
      in numpy_to_petsc A [0, shape0 A - 1] True)"

text \<open>
  Two readings of a variant, for comparison with \<open>apply_strong_bcs\<close>.
  \<open>zero_constrained\<close> follows the words of the specification: the rows and the
  columns of each constrained endpoint are set to zero and the diagonal is kept.
  \<open>zeroed_block\<close> says which indices lie in the slice \<^verbatim>\<open>kk\<close> of the source, for
  an array of \<open>n\<close> rows: the interior nodes and each constrained endpoint.
\<close>

definition zero_constrained :: "ndarray2 \<Rightarrow> nat \<Rightarrow> nat \<Rightarrow> ndarray2" where
  "zero_constrained A bc0 bc1 =
     mk_array (shape0 A) (shape1 A)
       (\<lambda>i j. if i \<noteq> j \<and> ((bc0 = 1 \<and> (i = 0 \<or> j = 0)) \<or>
                            (bc1 = 1 \<and> (i = shape0 A - 1 \<or> j = shape1 A - 1)))
              then 0 else A ! i ! j)"

definition zeroed_block :: "nat \<Rightarrow> nat \<Rightarrow> nat \<Rightarrow> nat \<Rightarrow> bool" where
  "zeroed_block n bc0 bc1 i =
     ((if bc0 = 1 then 0 else 1) \<le> i \<and> i < (if bc1 = 1 then n else n - 1))"

text \<open>\<^verbatim>\<open>numpy.dot(Sfdm.T, numpy.dot(Ahat, Sfdm))\<close>: a matrix in the basis \<open>Sfdm\<close>.\<close>

definition transformed :: "ndarray2 \<Rightarrow> ndarray2 \<Rightarrow> ndarray2" where
  "transformed Sfdm Ahat = dot (transpose_arr Sfdm) (dot Ahat Sfdm)"

text \<open>The order of the two loops of \<^verbatim>\<open>fdm_setup_cg\<close> and
  \<^verbatim>\<open>fdm_setup_ipdg\<close>: \<^verbatim>\<open>for bc1 in range(2): for bc0 in range(2)\<close>.\<close>

definition bc_loop :: "(nat \<times> nat) list" where
  "bc_loop = concat (map (\<lambda>bc1. map (\<lambda>bc0. (bc0, bc1)) [0..<2]) [0..<2])"

fun sequence_err :: "(error + 'a) list \<Rightarrow> error + 'a list" where
  "sequence_err [] = Inr []"
| "sequence_err (m # ms) =
     bind_err m (\<lambda>v. bind_err (sequence_err ms) (\<lambda>vs. Inr (v # vs)))"

definition fdm_setup_cg ::
  "linalg \<Rightarrow> (nat \<Rightarrow> fiat_line) \<Rightarrow> nat \<Rightarrow> error + (aij list \<times> ndarray2 option)" where
  "fdm_setup_cg la fiat degree =
     (let (Ahat, Bhat, Sfdm, _) = fdm_setup la fiat degree;
          A = transformed Sfdm Ahat;
          B = transformed Sfdm Bhat
      in bind_err (numpy_to_petsc B [] True) (\<lambda>B0.
         bind_err (sequence_err (map (\<lambda>(bc0, bc1). apply_strong_bcs A bc0 bc1) bc_loop)) (\<lambda>As.
         Inr (B0 # As, None))))"

text \<open>
  \<^verbatim>\<open>apply_weak_bcs(Ahat, Dfacet, bcs, eta)\<close> of \<^verbatim>\<open>fdm_setup_ipdg\<close>.  The loop
  \<^verbatim>\<open>for j in (0, -1)\<close> is \<open>weak_bc_step\<close> at the first and at the last index:
  \<open>jA\<close> is the row and column of \<open>Abc\<close>, \<open>jD\<close> the column of \<open>Dfacet\<close>
  and \<open>b\<close> the flag \<^verbatim>\<open>bcs[j]\<close>.  The three updates of the source are applied in
  their order.
\<close>

definition weak_bc_step :: "ndarray2 \<Rightarrow> nat \<Rightarrow> nat \<Rightarrow> nat \<Rightarrow> real \<Rightarrow> ndarray2 \<Rightarrow> ndarray2" where
  "weak_bc_step Dfacet jA jD b eta Abc =
     (if b = 1 then
        (let n = shape0 Abc; m = shape1 Abc;
             A1 = mk_array n m (\<lambda>i j. if j = jA then Abc ! i ! j - Dfacet ! i ! jD else Abc ! i ! j);
             A2 = mk_array n m (\<lambda>i j. if i = jA then A1 ! i ! j - Dfacet ! j ! jD else A1 ! i ! j);
             A3 = mk_array n m (\<lambda>i j. if i = jA \<and> j = jA then A2 ! i ! j + eta else A2 ! i ! j)
         in A3)
      else Abc)"

definition weak_bcs_array :: "ndarray2 \<Rightarrow> ndarray2 \<Rightarrow> nat \<times> nat \<Rightarrow> real \<Rightarrow> ndarray2" where
  "weak_bcs_array Ahat Dfacet bcs eta =
     (let Abc = Ahat;
          Abc = weak_bc_step Dfacet 0 0 (fst bcs) eta Abc;
          Abc = weak_bc_step Dfacet (shape0 Ahat - 1) (shape1 Dfacet - 1) (snd bcs) eta Abc
      in Abc)"

definition apply_weak_bcs :: "ndarray2 \<Rightarrow> ndarray2 \<Rightarrow> nat \<times> nat \<Rightarrow> real \<Rightarrow> error + aij" where
  "apply_weak_bcs Ahat Dfacet bcs eta =
     (if shape0 Ahat = 0 \<or> shape1 Ahat = 0 \<or> shape1 Dfacet = 0 then Inl IndexError
      else
        (let Abc = weak_bcs_array Ahat Dfacet bcs eta
         in numpy_to_petsc Abc [0, shape0 Abc - 1] True))"

definition fdm_setup_ipdg ::
  "linalg \<Rightarrow> (nat \<Rightarrow> fiat_line) \<Rightarrow> nat \<Rightarrow> real \<Rightarrow> error + (aij list \<times> ndarray2 option)" where
  "fdm_setup_ipdg la fiat degree eta =
     (let (Ahat, Bhat, Sfdm, Dfdm) = fdm_setup la fiat degree;
          A = transformed Sfdm Ahat;
          B = transformed Sfdm Bhat
      in bind_err (numpy_to_petsc B [] True) (\<lambda>B0.
         bind_err (sequence_err (map (\<lambda>(bc0, bc1). apply_weak_bcs A Dfdm (bc0, bc1) eta) bc_loop)) (\<lambda>As.
         Inr (B0 # As, Some Dfdm))))"

section \<open>\<^verbatim>\<open>get_bc_flags\<close>\<close>

text \<open>
  The boundary conditions and the form as \<^verbatim>\<open>get_bc_flags(bcs, J)\<close> reads them.
  A \<^verbatim>\<open>DirichletBC\<close> has the tuple \<^verbatim>\<open>bc._indices\<close> of the components it is
  restricted to (empty when unrestricted) and its \<^verbatim>\<open>sub_domain\<close>: one of the
  strings \<^verbatim>\<open>"on_boundary"\<close>, \<^verbatim>\<open>"bottom"\<close>, \<^verbatim>\<open>"top"\<close>, a label or a tuple of
  labels.  Any other boundary condition is skipped.  An integral of the form has
  its \<^verbatim>\<open>integral_type()\<close> and its \<^verbatim>\<open>subdomain_id()\<close>: the string
  \<^verbatim>\<open>"everywhere"\<close>, a label or a tuple of labels.  The integrals are those of
  the form after \<^verbatim>\<open>expand_derivatives\<close>, which is a routine of UFL.
\<close>

datatype sub_domain = OnBoundary | Bottom | Top | SubId int | SubIds "int list"

datatype bc = DirichletBC "nat list" sub_domain | OtherBC

datatype subdomain_id = Everywhere | DomId int | DomIds "int list"

record integral =
  integral_type :: string
  subdomain_id :: subdomain_id

text \<open>
  The mesh.  \<open>cell_to_facets_data\<close> is \<^verbatim>\<open>mesh.cell_to_facets.data_with_halos\<close>:
  for each cell and each of its facets the pair of the interior flag (\<open>0\<close> on an
  exterior facet) and the sub-domain id.  On an extruded mesh the rows of the
  base cells are repeated once per layer, two facets are added to each cell, and
  the facets are completed from \<open>marked_facets\<close>, the values that the source
  reads from a function assembled by Firedrake: positive on an interior facet,
  \<open>-2\<close> and \<open>-4\<close> on the bottom and the top.  \<open>layer_counts\<close> is
  \<^verbatim>\<open>nelz\<close>, one count for every base cell, and \<open>astype_int\<close> the conversion
  \<^verbatim>\<open>astype\<close> of a float to an integer, which truncates.  The arrays of the mesh
  are taken with the shapes Firedrake gives them.
\<close>

record facet_mesh =
  extruded :: bool
  cell_to_facets_data :: "(int \<times> int) list list"
  layers_array :: "(int \<times> int) list"
  marked_facets :: "real list list"

definition layer_counts :: "facet_mesh \<Rightarrow> nat list" where
  "layer_counts mesh =
     (let layers = layers_array mesh; nelv = length (cell_to_facets_data mesh)
      in if length layers = 1
         then replicate nelv (nat (snd (layers ! 0) - fst (layers ! 0) - 1))
         else map (\<lambda>(l0, l1). nat (l1 - l0 - 1)) layers)"

definition astype_int :: "real \<Rightarrow> int" where
  "astype_int x = (if x < 0 then - \<lfloor>- x\<rfloor> else \<lfloor>x\<rfloor>)"

definition complete_facet :: "int \<times> int \<Rightarrow> real \<Rightarrow> int \<times> int" where
  "complete_facet c m =
     (let c = (if 0 < m then (1, - 1) else c)
      in if m < 0 then (0, astype_int m) else c)"

definition cell_to_facets :: "facet_mesh \<Rightarrow> (int \<times> int) list list" where
  "cell_to_facets mesh =
     (if extruded mesh then
        (let base = concat (map2 (\<lambda>row n. replicate n row) (cell_to_facets_data mesh)
                             (layer_counts mesh));
             zeros = map (\<lambda>row. row @ [(0, 0), (0, 0)]) base
         in map2 (\<lambda>row ms. map2 complete_facet row ms) zeros (marked_facets mesh))
      else cell_to_facets_data mesh)"

text \<open>
  The two loops that fill \<^verbatim>\<open>maskall\<close> and the dictionary \<^verbatim>\<open>comp\<close>, which
  maps a tuple of components to the labels collected for it.  The dictionary is
  an association list in the order of insertion, and \<open>comp_get\<close> is
  \<^verbatim>\<open>comp.get(key, ())\<close>.
\<close>

type_synonym comp_dict = "(nat list \<times> int list) list"

definition comp_get :: "comp_dict \<Rightarrow> nat list \<Rightarrow> int list" where
  "comp_get cmap key = (case map_of cmap key of None \<Rightarrow> [] | Some labels \<Rightarrow> labels)"

definition bc_step :: "bc \<Rightarrow> nat list list \<times> comp_dict \<Rightarrow> nat list list \<times> comp_dict" where
  "bc_step b st =
     (case b of
        OtherBC \<Rightarrow> st
      | DirichletBC indices bs \<Rightarrow>
          (let (maskall, cmap) = st;
               labels = comp_get cmap indices
           in case bs of
                OnBoundary \<Rightarrow> (maskall @ [indices], AList.update indices labels cmap)
              | Bottom \<Rightarrow> (maskall, AList.update indices (labels @ [- 2]) cmap)
              | Top \<Rightarrow> (maskall, AList.update indices (labels @ [- 4]) cmap)
              | SubId l \<Rightarrow> (maskall, AList.update indices (labels @ [l]) cmap)
              | SubIds ls \<Rightarrow> (maskall, AList.update indices (labels @ ls) cmap)))"

definition startswith :: "string \<Rightarrow> string \<Rightarrow> bool" where
  "startswith s p = (take (length p) s = p)"

definition integral_step ::
  "integral \<Rightarrow> nat list list \<times> comp_dict \<Rightarrow> nat list list \<times> comp_dict" where
  "integral_step it st =
     (let itype = integral_type it
      in if startswith itype ''exterior_facet'' then
           (let (maskall, cmap) = st;
                index = [];
                labels = comp_get cmap index
            in case subdomain_id it of
                 Everywhere \<Rightarrow>
                   (if itype = ''exterior_facet_bottom''
                    then (maskall, AList.update index (labels @ [- 2]) cmap)
                    else if itype = ''exterior_facet_top''
                    then (maskall, AList.update index (labels @ [- 4]) cmap)
                    else (maskall @ [index], AList.update index labels cmap))
               | DomId l \<Rightarrow> (maskall, AList.update index (labels @ [l]) cmap)
               | DomIds ls \<Rightarrow> (maskall, AList.update index (labels @ ls) cmap))
         else st)"

text \<open>
  The flags.  \<open>base_flag\<close> is the flag of a facet for all components: the
  membership \<^verbatim>\<open>numpy.isin(sub, labels)\<close>, then
  \<^verbatim>\<open>fbc[sub >= -1] = 1\<close> when \<^verbatim>\<open>()\<close> is in \<^verbatim>\<open>maskall\<close>, then
  \<^verbatim>\<open>fbc[flags != 0] = 0\<close>.  \<open>comp_flag\<close> is the update of the loop over the
  components: \<^verbatim>\<open>fbc[j] |= numpy.isin(sub, labels)\<close>, then
  \<^verbatim>\<open>fbc[j][sub >= -1] = 1\<close> when \<^verbatim>\<open>(j,)\<close> is in \<^verbatim>\<open>maskall\<close>.  The result has
  two axes (cell, facet), or three (cell, component, facet) when some key of the
  dictionary is not the empty tuple; \<open>vsize\<close> is \<^verbatim>\<open>V.value_size\<close>.
  \<open>flag_at\<close> reads the flag of a facet on a component from either shape, as
  \<^verbatim>\<open>assemble_kron\<close> does.
\<close>

datatype flags_array = Flags2 "int list list" | Flags3 "int list list list"

definition isin :: "int \<Rightarrow> int list \<Rightarrow> bool" where
  "isin s labels = (s \<in> set labels)"

definition base_flag :: "nat list list \<Rightarrow> int list \<Rightarrow> int \<times> int \<Rightarrow> int" where
  "base_flag maskall labels c =
     (let (flag, sub) = c;
          fbc = (if isin sub labels then 1 else 0);
          fbc = (if [] \<in> set maskall \<and> - 1 \<le> sub then 1 else fbc)
      in if flag \<noteq> 0 then 0 else fbc)"

definition int_or_bool :: "int \<Rightarrow> bool \<Rightarrow> int" where
  "int_or_bool x b = or x (of_bool b)"

definition comp_flag :: "nat list list \<Rightarrow> comp_dict \<Rightarrow> nat \<Rightarrow> int \<Rightarrow> int \<times> int \<Rightarrow> int" where
  "comp_flag maskall cmap j fbc c =
     (let (flag, sub) = c;
          key = [j];
          labels = remdups (comp_get cmap key);
          fbc = int_or_bool fbc (isin sub labels)
      in if key \<in> set maskall \<and> - 1 \<le> sub then 1 else fbc)"

definition get_bc_flags :: "bc list \<Rightarrow> integral list \<Rightarrow> facet_mesh \<Rightarrow> nat \<Rightarrow> flags_array" where
  "get_bc_flags bcs J mesh vsize =
     (let c2f = cell_to_facets mesh;
          (maskall, cmap) = fold bc_step bcs ([], []);
          (maskall, cmap) = fold integral_step J (maskall, cmap);
          labels = remdups (comp_get cmap []);
          fbc = map (map (base_flag maskall labels)) c2f;
          others = filter (\<lambda>key. key \<noteq> []) (map fst cmap)
      in if others \<noteq> [] then
           Flags3 (map (\<lambda>(row, frow). map (\<lambda>j. map2 (comp_flag maskall cmap j) frow row)
                                          [0..<vsize])
                     (zip c2f fbc))
         else Flags2 fbc)"

definition flag_at :: "flags_array \<Rightarrow> nat \<Rightarrow> nat \<Rightarrow> nat \<Rightarrow> int" where
  "flag_at fbc e k f = (case fbc of Flags2 a \<Rightarrow> a ! e ! f | Flags3 a \<Rightarrow> a ! e ! k ! f)"






section \<open>PETSc matrices in the assembly\<close>

text \<open>
  The operations of a sequential \<^verbatim>\<open>PETSc.Mat\<close> that \<^verbatim>\<open>assemble_kron\<close> calls on
  the interval matrices.  \<open>mat_scale\<close> is \<^verbatim>\<open>Mat.scale(a)\<close>, \<open>mat_axpy Y a X\<close>
  is \<^verbatim>\<open>Y.axpy(a, X)\<close>, that is \<open>Y + a X\<close> on the union of the two patterns,
  which PETSc refuses for matrices of different shapes, and \<open>mat_kron\<close> is
  \<^verbatim>\<open>A.kron(B)\<close>, which stores the products of the stored entries.
  \<^verbatim>\<open>Mat.copy()\<close> is the matrix itself.  \<open>createAIJWithArrays\<close> is the call of
  line 299 with the index arrays \<^verbatim>\<open>aptr\<close> and \<^verbatim>\<open>aidx\<close> of a full matrix and
  the values \<open>adata\<close>.  \<open>getValuesCSR\<close> gives, for each row, the stored columns
  in increasing order with their values: the slices
  \<^verbatim>\<open>indices[i0:i1]\<close> and \<^verbatim>\<open>data[i0:i1]\<close> of \<^verbatim>\<open>set_submat_csr\<close>.
\<close>

definition mat_scale :: "aij \<Rightarrow> real \<Rightarrow> aij" where
  "mat_scale M a = M\<lparr>aij_ent := (\<lambda>p. map_option (\<lambda>v. a * v) (aij_ent M p))\<rparr>"

definition mat_axpy :: "aij \<Rightarrow> real \<Rightarrow> aij \<Rightarrow> error + aij" where
  "mat_axpy Y a X =
     (if aij_shape X \<noteq> aij_shape Y then Inl PetscError
      else Inr (Y\<lparr>aij_ent := (\<lambda>p. case aij_ent X p of
                                      None \<Rightarrow> aij_ent Y p
                                    | Some x \<Rightarrow> (case aij_ent Y p of
                                                   None \<Rightarrow> Some (a * x)
                                                 | Some y \<Rightarrow> Some (y + a * x)))\<rparr>))"

definition mat_kron :: "aij \<Rightarrow> aij \<Rightarrow> aij" where
  "mat_kron A B =
     (let (ra, ca) = aij_shape A; (rb, cb) = aij_shape B
      in \<lparr>aij_shape = (ra * rb, ca * cb),
          aij_ent = (\<lambda>(i, j). if i < ra * rb \<and> j < ca * cb
                               then (case aij_ent A (i div rb, j div cb) of
                                       None \<Rightarrow> None
                                     | Some a \<Rightarrow> map_option (\<lambda>b. a * b)
                                                  (aij_ent B (i mod rb, j mod cb)))
                               else None)\<rparr>)"

definition createAIJWithArrays :: "nat \<times> nat \<Rightarrow> ndarray2 \<Rightarrow> aij" where
  "createAIJWithArrays bshape adata =
     \<lparr>aij_shape = bshape,
      aij_ent = (\<lambda>(i, j). if i < fst bshape \<and> j < snd bshape then Some (adata ! i ! j) else None)\<rparr>"

definition getValuesCSR :: "aij \<Rightarrow> (nat \<times> real) list list" where
  "getValuesCSR M =
     map (\<lambda>i. List.map_filter (\<lambda>j. map_option (Pair j) (aij_ent M (i, j)))
                 [0..<snd (aij_shape M)])
       [0..<fst (aij_shape M)]"

text \<open>
  The matrix that is assembled: its type and its stored entries, indexed by the
  global numbers.  \<^verbatim>\<open>Mat.setValue\<close> and \<^verbatim>\<open>Mat.setValues\<close> ignore a negative
  row or column; on a matrix of type \<^verbatim>\<open>PREALLOCATOR\<close> they record the position
  and no value.  \<^verbatim>\<open>Mat.zeroEntries()\<close> keeps the pattern.  The size of the
  matrix is not modelled: no global number is out of range.
\<close>

datatype mat_type = PREALLOCATOR | AIJ

record gmat =
  gm_type :: mat_type
  gm_ent :: "int \<times> int \<Rightarrow> real option"

definition gm_val :: "gmat \<Rightarrow> int \<Rightarrow> int \<Rightarrow> real" where
  "gm_val A i j = (case gm_ent A (i, j) of None \<Rightarrow> 0 | Some v \<Rightarrow> v)"

definition zeroEntries :: "gmat \<Rightarrow> gmat" where
  "zeroEntries A = A\<lparr>gm_ent := (\<lambda>p. map_option (\<lambda>_. 0) (gm_ent A p))\<rparr>"

definition setValue_g :: "gmat \<Rightarrow> int \<Rightarrow> int \<Rightarrow> real \<Rightarrow> insert_mode \<Rightarrow> gmat" where
  "setValue_g A i j v imode =
     (if i < 0 \<or> j < 0 then A
      else A\<lparr>gm_ent := (gm_ent A)((i, j) \<mapsto>
             (if gm_type A = PREALLOCATOR then 0
              else case imode of
                     INSERT \<Rightarrow> v
                   | ADD_VALUES \<Rightarrow> (case gm_ent A (i, j) of None \<Rightarrow> v | Some w \<Rightarrow> w + v)))\<rparr>)"

definition setValues_g :: "gmat \<Rightarrow> int \<Rightarrow> int list \<Rightarrow> real list \<Rightarrow> insert_mode \<Rightarrow> gmat" where
  "setValues_g A row cols vals imode =
     fold (\<lambda>(c, v) A'. setValue_g A' row c v imode) (zip cols vals) A"

text \<open>
  A step that changes the matrix returns the new matrix, or the exception
  together with the matrix as it is when the exception is raised.  \<open>fold_err\<close>
  is a loop of such steps, \<open>lift\<close> a computation that may raise before the
  matrix is touched, and \<open>bind_res\<close> the sequence of two steps.
\<close>

type_synonym 's result = "(error \<times> 's) + 's"

fun fold_err :: "('a \<Rightarrow> 's \<Rightarrow> 's result) \<Rightarrow> 'a list \<Rightarrow> 's \<Rightarrow> 's result" where
  "fold_err f [] s = Inr s"
| "fold_err f (x # xs) s = (case f x s of Inl e \<Rightarrow> Inl e | Inr s' \<Rightarrow> fold_err f xs s')"

definition lift :: "error + 'a \<Rightarrow> ('a \<Rightarrow> 's \<Rightarrow> 's result) \<Rightarrow> 's \<Rightarrow> 's result" where
  "lift m f s = (case m of Inl e \<Rightarrow> Inl (e, s) | Inr v \<Rightarrow> f v s)"

definition bind_res :: "'s result \<Rightarrow> ('s \<Rightarrow> 's result) \<Rightarrow> 's result" where
  "bind_res r f = (case r of Inl e \<Rightarrow> Inl e | Inr s \<Rightarrow> f s)"

text \<open>
  \<^verbatim>\<open>set_submat_csr(A_global, A_local, global_rows, imode)\<close>.  The loop runs
  over \<^verbatim>\<open>global_rows.flat\<close>; \<^verbatim>\<open>indptr[i+1]\<close> raises when the local matrix has
  fewer rows, and \<^verbatim>\<open>global_rows.flat[indices[i0:i1]]\<close> raises on a column
  beyond the rows given.
\<close>

definition set_submat_csr :: "gmat \<Rightarrow> aij \<Rightarrow> int list \<Rightarrow> insert_mode \<Rightarrow> gmat result" where
  "set_submat_csr A_global A_local global_rows imode =
     (let csr = getValuesCSR A_local
      in fold_err
           (\<lambda>(i, row) A.
              if length csr \<le> i then Inl (IndexError, A)
              else (let r = csr ! i
                    in if list_ex (\<lambda>(c, v). length global_rows \<le> c) r then Inl (IndexError, A)
                       else Inr (setValues_g A row (map (\<lambda>(c, v). global_rows ! c) r)
                                   (map snd r) imode)))
           (enumerate 0 global_rows) A_global)"

section \<open>Numbering\<close>

text \<open>
  A \<^verbatim>\<open>pyop2.Map\<close> from the cells to their nodes: \<open>nm_values\<close> are the rows of the
  cells owned by the process, \<open>values_with_halo\<close> those of all cells,
  \<open>nm_offset\<close> is \<^verbatim>\<open>node_map.offset\<close> (\<open>None\<close> unless the mesh is extruded)
  and \<open>nm_layers_array\<close> is \<^verbatim>\<open>node_map.iterset.layers_array\<close>.  \<open>nth_err\<close>
  is an index into a list or an array that raises \<open>IndexError\<close> out of range,
  \<open>py_nth\<close> an index that may be negative, and \<open>add_offset\<close> the sum
  \<^verbatim>\<open>nodes + l * offset\<close> of two arrays with the broadcasting of numpy.
  \<^verbatim>\<open>glonum_fun\<close> returns the function from a cell to its nodes and the number
  of cells owned by the process.
\<close>

record node_map =
  nm_values :: "int list list"
  values_with_halo :: "int list list"
  nm_offset :: "int list option"
  nm_layers_array :: "(int \<times> int) list"

definition nth_err :: "'a list \<Rightarrow> nat \<Rightarrow> error + 'a" where
  "nth_err xs i = (if i < length xs then Inr (xs ! i) else Inl IndexError)"

definition py_nth :: "'a list \<Rightarrow> int \<Rightarrow> error + 'a" where
  "py_nth xs i =
     (if 0 \<le> i \<and> i < int (length xs) then Inr (xs ! nat i)
      else if - int (length xs) \<le> i \<and> i < 0 then Inr (xs ! nat (int (length xs) + i))
      else Inl IndexError)"

definition add_offset :: "int list \<Rightarrow> int \<Rightarrow> int list \<Rightarrow> error + int list" where
  "add_offset nds l off =
     (if length nds = length off \<or> length off = 1 \<or> length nds = 1
      then Inr (map (\<lambda>i. (if length nds = 1 then nds ! 0 else nds ! i) +
                           l * (if length off = 1 then off ! 0 else off ! i))
                  [0..<max (length nds) (length off)])
      else Inl ValueError)"

definition glonum_fun :: "node_map \<Rightarrow> (nat \<Rightarrow> error + int list) \<times> nat" where
  "glonum_fun nm =
     (let nelv = length (nm_values nm)
      in case nm_offset nm of
           None \<Rightarrow> (\<lambda>e. nth_err (values_with_halo nm) e, nelv)
         | Some off \<Rightarrow>
             (let layers = nm_layers_array nm
              in if length layers = 1 then
                   (let nelz = nat (snd (layers ! 0) - fst (layers ! 0) - 1);
                        nel = nelz * nelv
                    in (\<lambda>e. if nelz = 0 then Inl ZeroDivisionError
                             else bind_err (nth_err (values_with_halo nm) (e div nelz))
                                    (\<lambda>nds. add_offset nds (int (e mod nelz)) off),
                        nel))
                 else
                   (let nelz = map (\<lambda>(l0, l1). nat (l1 - l0 - 1)) layers;
                        nel = sum_list (take nelv nelz);
                        to_base = concat (map2 (\<lambda>b n. replicate n b)
                                            [0..<length (values_with_halo nm)] nelz);
                        to_layer = concat (map (\<lambda>nz. [0..<nz]) nelz)
                    in (\<lambda>e. bind_err (nth_err to_base e) (\<lambda>b.
                             bind_err (nth_err (values_with_halo nm) b) (\<lambda>nds.
                             bind_err (nth_err to_layer e) (\<lambda>l.
                             add_offset nds (int l) off))),
                        nel))))"


section \<open>\<^verbatim>\<open>assemble_kron\<close>\<close>

text \<open>
  What \<^verbatim>\<open>assemble_kron\<close> reads from its arguments.  An array with one or with
  two axes is \<open>Array1\<close> or \<open>Array2\<close>, and \<open>component a k\<close> is
  \<^verbatim>\<open>a[k] if len(a.shape) == 2 else a\<close>.  The function space \<open>V\<close> with the
  conditions \<open>bcs\<close> gives: the indices of \<^verbatim>\<open>V.local_to_global_map(bcs)\<close>,
  negative on the nodes that a strong condition eliminates, those of
  \<^verbatim>\<open>V.dof_dset.lgmap\<close>, the sizes, the dimensions of the mesh,
  \<^verbatim>\<open>get_shift(V.finat_element)\<close> and the map from the cells to the nodes.  The
  coefficients give, for every cell, the sum
  \<^verbatim>\<open>numpy.atleast_1d(numpy.sum(Gq.dat.data_ro[je], axis=0))\<close> of the second
  order coefficient and, when there is a zero-th order coefficient \<open>Bq\<close>, the
  same sum for it: \<open>BqTensor\<close> with its shape when \<^verbatim>\<open>len(Bq.ufl_shape) == 2\<close>,
  \<open>BqDiag\<close> otherwise.  The coefficients are read after the assembly callables
  have run.  For the interior facets the coefficients give their number and, for
  every facet and component, \<open>facet_block\<close>: the local matrix \<^verbatim>\<open>Ae\<close> of lines
  383 to 425 and the local indices of its rows in the order that
  \<^verbatim>\<open>pull_axis\<close> gives them, before the map to global numbers.  The values of
  the local matrix of a facet enter none of the statements below; exceptions
  raised while it is computed are not modelled.
\<close>

datatype 'a array12 = Array1 "'a list" | Array2 "'a list list"

definition component :: "'a array12 \<Rightarrow> nat \<Rightarrow> error + 'a list" where
  "component a k = (case a of Array1 v \<Rightarrow> Inr v | Array2 m \<Rightarrow> nth_err m k)"

definition bcflags_row :: "flags_array \<Rightarrow> nat \<Rightarrow> error + int array12" where
  "bcflags_row bcflags e =
     (case bcflags of
        Flags2 a \<Rightarrow> bind_err (nth_err a e) (\<lambda>r. Inr (Array1 r))
      | Flags3 a \<Rightarrow> bind_err (nth_err a e) (\<lambda>r. Inr (Array2 r)))"

datatype reaction = BqDiag "nat \<Rightarrow> real list" | BqTensor "nat \<times> nat" "nat \<Rightarrow> ndarray2"

record fspace =
  lgmap_indices :: "int list"
  dset_lgmap_indices :: "int list"
  value_size :: nat
  reference_value_size :: nat
  topological_dimension :: nat
  geometric_dimension :: nat
  element_shift :: nat
  cell_node_map :: node_map

record coefficients =
  Gq_cell :: "nat \<Rightarrow> real array12"
  Bq :: "reaction option"
  nfacets :: nat
  facet_block :: "real \<Rightarrow> nat \<Rightarrow> nat \<Rightarrow> aij \<times> int list"

text \<open>
  \<^verbatim>\<open>lgmap.apply(idx)\<close> leaves a negative index as it is and fails on an index
  beyond the map.  \<open>dirichlet_rows\<close> is
  \<^verbatim>\<open>V.dof_dset.lgmap.indices[lgmap.indices < 0]\<close>, which raises when the two
  arrays differ in length.  \<open>reshape_rows x r\<close> is
  \<^verbatim>\<open>numpy.reshape(x, (r, -1))\<close>.
\<close>

definition lgmap_apply :: "int list \<Rightarrow> int list \<Rightarrow> error + int list" where
  "lgmap_apply lgmap idx =
     (if list_ex (\<lambda>i. int (length lgmap) \<le> i) idx then Inl PetscError
      else Inr (map (\<lambda>i. if i < 0 then i else lgmap ! nat i) idx))"

definition dirichlet_rows :: "fspace \<Rightarrow> error + int list" where
  "dirichlet_rows V =
     (if length (lgmap_indices V) \<noteq> length (dset_lgmap_indices V) then Inl IndexError
      else Inr (map fst (filter (\<lambda>(row, l). l < 0)
                           (zip (dset_lgmap_indices V) (lgmap_indices V)))))"

definition reshape_rows :: "'a list \<Rightarrow> nat \<Rightarrow> error + 'a list list" where
  "reshape_rows x r =
     (if r = 0 \<or> length x mod r \<noteq> 0 then Inl ValueError
      else (let c = length x div r in Inr (map (\<lambda>i. take c (drop (i * c) x)) [0..<r])))"

text \<open>
  \<open>roll_axes ndim shift k\<close> is \<^verbatim>\<open>numpy.roll(numpy.arange(ndim), -shift*k)\<close>.
  \<open>flag2id\<close> is \<^verbatim>\<open>numpy.kron(numpy.eye(ndim, ndim), [[1], [2]])\<close> and
  \<open>vec_dot\<close> is \<^verbatim>\<open>numpy.dot\<close> of a vector and a matrix, so that
  \<^verbatim>\<open>fbc = numpy.dot(bck, flag2id)\<close> is \<open>vec_dot bck (flag2id ndim)\<close>.
\<close>

definition roll_axes :: "nat \<Rightarrow> nat \<Rightarrow> nat \<Rightarrow> nat list" where
  "roll_axes ndim shift k = map (\<lambda>i. (i + shift * k) mod ndim) [0..<ndim]"

definition eye_int :: "nat \<Rightarrow> int list list" where
  "eye_int n = mk_array n n (\<lambda>i j. if i = j then 1 else 0)"

definition numpy_kron :: "int list list \<Rightarrow> int list list \<Rightarrow> int list list" where
  "numpy_kron X Y =
     mk_array (shape0 X * shape0 Y) (shape1 X * shape1 Y)
       (\<lambda>i j. X ! (i div shape0 Y) ! (j div shape1 Y) * Y ! (i mod shape0 Y) ! (j mod shape1 Y))"

definition flag2id :: "nat \<Rightarrow> int list list" where
  "flag2id ndim = numpy_kron (eye_int ndim) [[1], [2]]"

definition vec_dot :: "int list \<Rightarrow> int list list \<Rightarrow> error + int list" where
  "vec_dot v M =
     (if length v \<noteq> shape0 M then Inl ValueError
      else Inr (map (\<lambda>j. sum_list (map (\<lambda>r. v ! r * M ! r ! j) [0..<shape0 M]))
                  [0..<shape1 M]))"

text \<open>
  The local matrix of a cell for one component.  \<open>catalog_entry Afdm axes i 0\<close>
  is \<^verbatim>\<open>Afdm[axes[i]][0]\<close> and \<open>stiffness_entry Afdm axes fbc i\<close> is
  \<^verbatim>\<open>Afdm[axes[i]][1+fbc[i]]\<close>.  \<open>cell_matrix\<close> follows lines 331 to 346:
  \<open>muk\<close> is the coefficient of the component, \<open>bqe\<close> the zero-th order
  coefficient of the cell, if any, and \<open>k\<close> the component.
\<close>

definition catalog_entry :: "aij list list \<Rightarrow> nat list \<Rightarrow> nat \<Rightarrow> int \<Rightarrow> error + aij" where
  "catalog_entry Afdm axes i ix =
     bind_err (nth_err axes i) (\<lambda>a. bind_err (nth_err Afdm a) (\<lambda>Ak. py_nth Ak ix))"

definition stiffness_entry ::
  "aij list list \<Rightarrow> nat list \<Rightarrow> int list \<Rightarrow> nat \<Rightarrow> error + aij" where
  "stiffness_entry Afdm axes fbc i =
     bind_err (nth_err axes i) (\<lambda>a. bind_err (nth_err Afdm a) (\<lambda>Ak.
     bind_err (nth_err fbc i) (\<lambda>f. py_nth Ak (1 + f))))"

definition cell_matrix ::
  "aij list list \<Rightarrow> nat \<Rightarrow> nat list \<Rightarrow> int list \<Rightarrow> real list \<Rightarrow> real list option \<Rightarrow> nat
     \<Rightarrow> error + aij" where
  "cell_matrix Afdm ndim axes fbc muk bqe k =
     bind_err (catalog_entry Afdm axes 0 0) (\<lambda>Be.
     bind_err (stiffness_entry Afdm axes fbc 0) (\<lambda>Ae.
     bind_err (nth_err muk 0) (\<lambda>mu0.
     bind_err (case bqe of
                 None \<Rightarrow> Inr (mat_scale Ae mu0)
               | Some bq \<Rightarrow> bind_err (nth_err bq k) (\<lambda>b. mat_axpy (mat_scale Ae mu0) b Be)) (\<lambda>Ae.
     if 1 < ndim then
       bind_err (catalog_entry Afdm axes 1 0) (\<lambda>B1.
       bind_err (nth_err muk 1) (\<lambda>mu1.
       bind_err (stiffness_entry Afdm axes fbc 1) (\<lambda>A1.
       bind_err (mat_axpy (mat_kron Ae B1) mu1 (mat_kron Be A1)) (\<lambda>Ae.
       if 2 < ndim then
         bind_err (catalog_entry Afdm axes 2 0) (\<lambda>B2.
         bind_err (nth_err muk 2) (\<lambda>mu2.
         bind_err (stiffness_entry Afdm axes fbc 2) (\<lambda>A2.
         mat_axpy (mat_kron Ae B2) mu2 (mat_kron (mat_kron Be B1) A2))))
       else Inr Ae))))
     else Inr Ae))))"

text \<open>
  One component of a cell (lines 323 to 351), one cell (lines 312 to 351), the
  zero-th order term of a tensor coefficient (lines 286 to 308), the identity on
  the Dirichlet rows (lines 280 and 281) and the interior facets (lines 354 to
  437).
\<close>

definition component_rows ::
  "fspace \<Rightarrow> int list list \<Rightarrow> nat \<Rightarrow> error + int list" where
  "component_rows V ie k =
     (let bsize = value_size V; ncomp = reference_value_size V
      in bind_err (if bsize = ncomp
                   then bind_err (nth_err ie 0) (\<lambda>r. Inr (map (\<lambda>i. i * int bsize + int k) r))
                   else nth_err ie k)
           (lgmap_apply (lgmap_indices V)))"

definition component_step ::
  "fspace \<Rightarrow> aij list list \<Rightarrow> int list list \<Rightarrow> real array12 \<Rightarrow> real list option \<Rightarrow> int array12
     \<Rightarrow> nat \<Rightarrow> gmat \<Rightarrow> gmat result" where
  "component_step V Afdm ie mue bqe bce k =
     (let ndim = topological_dimension V;
          shift = element_shift V mod ndim;
          axes = roll_axes ndim shift k
      in lift (component mue k) (\<lambda>muk.
         lift (component bce k) (\<lambda>bck.
         lift (vec_dot bck (flag2id ndim)) (\<lambda>fbc.
         lift (cell_matrix Afdm ndim axes fbc muk bqe k) (\<lambda>Ae.
         lift (component_rows V ie k) (\<lambda>rows A.
         set_submat_csr A Ae rows ADD_VALUES))))))"

definition cell_step ::
  "fspace \<Rightarrow> coefficients \<Rightarrow> aij list list \<Rightarrow> flags_array \<Rightarrow> nat \<Rightarrow> gmat \<Rightarrow> gmat result" where
  "cell_step V coefs Afdm bcflags e =
     (let bsize = value_size V; ncomp = reference_value_size V;
          index_cell = fst (glonum_fun (cell_node_map V))
      in lift (index_cell e) (\<lambda>nds.
         lift (if bsize = 0 then Inl ZeroDivisionError else reshape_rows nds (ncomp div bsize))
           (\<lambda>ie.
         lift (bcflags_row bcflags e) (\<lambda>bce.
         (let mue = Gq_cell coefs e;
              bqe = (case Bq coefs of Some (BqDiag bq) \<Rightarrow> Some (bq e) | _ \<Rightarrow> None)
          in fold_err (component_step V Afdm ie mue bqe bce) [0..<ncomp])))))"

definition mass_kron :: "aij list list \<Rightarrow> nat \<Rightarrow> error + aij" where
  "mass_kron Afdm ndim =
     bind_err (bind_err (nth_err Afdm 0) (\<lambda>A0. nth_err A0 0)) (\<lambda>Be.
     fold (\<lambda>k r. bind_err r (\<lambda>Be. bind_err (bind_err (nth_err Afdm k) (\<lambda>Ak. nth_err Ak 0))
                                    (\<lambda>Bk. Inr (mat_kron Be Bk))))
       [1..<ndim] (Inr Be))"

definition reaction_step ::
  "fspace \<Rightarrow> nat \<times> nat \<Rightarrow> (nat \<Rightarrow> ndarray2) \<Rightarrow> aij \<Rightarrow> nat \<Rightarrow> gmat \<Rightarrow> gmat result" where
  "reaction_step V bshape adata Be e =
     (let bsize = value_size V;
          index_cell = fst (glonum_fun (cell_node_map V));
          Ae = mat_kron Be (createAIJWithArrays bshape (adata e))
      in lift (index_cell e) (\<lambda>ie.
         lift (lgmap_apply (lgmap_indices V)
                 (concat (map (\<lambda>i. map (\<lambda>b. i * int bsize + int b) [0..<bsize]) ie)))
           (\<lambda>rows A.
         set_submat_csr A Ae rows ADD_VALUES)))"

definition reaction_phase ::
  "fspace \<Rightarrow> coefficients \<Rightarrow> aij list list \<Rightarrow> nat list \<Rightarrow> gmat \<Rightarrow> gmat result" where
  "reaction_phase V coefs Afdm cells =
     (case Bq coefs of
        Some (BqTensor bshape adata) \<Rightarrow>
          lift (mass_kron Afdm (topological_dimension V))
            (\<lambda>Be. fold_err (reaction_step V bshape adata Be) cells)
      | _ \<Rightarrow> Inr)"

definition identity_phase :: "fspace \<Rightarrow> gmat \<Rightarrow> gmat result" where
  "identity_phase V =
     lift (dirichlet_rows V)
       (\<lambda>rows A. Inr (fold (\<lambda>row A. setValue_g A row row 1 ADD_VALUES) rows A))"

definition facet_step ::
  "fspace \<Rightarrow> real \<Rightarrow> coefficients \<Rightarrow> ndarray2 option list \<Rightarrow> nat \<Rightarrow> gmat \<Rightarrow> gmat result" where
  "facet_step V eta coefs Dfdm e =
     (let ndim = topological_dimension V;
          shift = element_shift V mod ndim
      in fold_err
           (\<lambda>k. lift (bind_err (nth_err (roll_axes ndim shift k) 0) (nth_err Dfdm))
                   (\<lambda>Dfacet A.
                      case Dfacet of
                        None \<Rightarrow> Inr A
                      | Some D \<Rightarrow>
                          (let (Ae, loc) = facet_block coefs eta e k
                           in lift (lgmap_apply (lgmap_indices V) loc)
                                (\<lambda>rows A. set_submat_csr A Ae rows ADD_VALUES) A)))
           [0..<reference_value_size V])"

definition facet_phase ::
  "fspace \<Rightarrow> real \<Rightarrow> coefficients \<Rightarrow> ndarray2 option list \<Rightarrow> nat list \<Rightarrow> gmat \<Rightarrow> gmat result" where
  "facet_phase V eta coefs Dfdm facets A =
     (if list_ex (\<lambda>Dk. Dk \<noteq> None) Dfdm then
        (if topological_dimension V < geometric_dimension V then Inl (NotImplementedError, A)
         else fold_err (facet_step V eta coefs Dfdm) facets A)
      else Inr A)"

text \<open>
  \<^verbatim>\<open>assemble_kron\<close>.  \<open>cell_phase\<close> is the function up to the end of the loop
  over the cells and \<open>facet_phase\<close> the rest.  \<open>assemble_kron_ordered\<close> visits
  the cells and the interior facets in the orders given; \<open>assemble_kron\<close> is the
  source, which visits them in increasing order.  The first exceptions are the
  divisions by \<^verbatim>\<open>ncomp\<close> (line 260) and by \<^verbatim>\<open>ndim\<close> (line 262), the index
  \<^verbatim>\<open>Ak[0]\<close> of line 269 and the assertion of line 271.
\<close>

definition cell_phase ::
  "gmat \<Rightarrow> fspace \<Rightarrow> coefficients \<Rightarrow> aij list list \<Rightarrow> flags_array \<Rightarrow> nat list \<Rightarrow> gmat result" where
  "cell_phase A V coefs Afdm bcflags cells =
     (let ncomp = reference_value_size V; ndim = topological_dimension V
      in if ncomp = 0 \<or> ndim = 0 then Inl (ZeroDivisionError, A)
         else if list_ex (\<lambda>Ak. Ak = []) Afdm then Inl (IndexError, A)
         else if element_shift V mod ndim \<noteq> 0 \<and> ncomp \<noteq> ndim then Inl (AssertionError, A)
         else
           bind_res (identity_phase V (if gm_type A \<noteq> PREALLOCATOR then zeroEntries A else A)) (\<lambda>A.
           bind_res (reaction_phase V coefs Afdm cells A) (\<lambda>A.
           fold_err (cell_step V coefs Afdm bcflags) cells A)))"

definition assemble_kron_ordered ::
  "gmat \<Rightarrow> fspace \<Rightarrow> real \<Rightarrow> coefficients \<Rightarrow> aij list list \<Rightarrow> ndarray2 option list \<Rightarrow> flags_array
     \<Rightarrow> nat list \<Rightarrow> nat list \<Rightarrow> gmat result" where
  "assemble_kron_ordered A V eta coefs Afdm Dfdm bcflags cells facets =
     bind_res (cell_phase A V coefs Afdm bcflags cells)
       (facet_phase V eta coefs Dfdm facets)"

definition assemble_kron ::
  "gmat \<Rightarrow> fspace \<Rightarrow> real \<Rightarrow> coefficients \<Rightarrow> aij list list \<Rightarrow> ndarray2 option list \<Rightarrow> flags_array
     \<Rightarrow> gmat result" where
  "assemble_kron A V eta coefs Afdm Dfdm bcflags =
     assemble_kron_ordered A V eta coefs Afdm Dfdm bcflags
       [0..<snd (glonum_fun (cell_node_map V))] [0..<nfacets coefs]"

section \<open>Example inputs\<close>

text \<open>
  The elements of degree \<open>1\<close> and \<open>2\<close> on the interval \<open>[0, 1]\<close>, as FIAT
  tabulates them for \<^verbatim>\<open>fdm_setup\<close>.  Degree \<open>1\<close>: the shape functions \<open>1 - x\<close>
  and \<open>x\<close> at the two Gauss-Legendre points \<open>1/2 \<mp> \<surd>3/6\<close>, each of weight
  \<open>1/2\<close>; the derivatives are \<open>-1\<close> and \<open>1\<close> everywhere.  Degree \<open>2\<close>: the
  shape functions \<open>(1 - x)(1 - 2x)\<close>, \<open>4x(1 - x)\<close> and \<open>x(2x - 1)\<close> of the nodes
  \<open>0\<close>, \<open>1/2\<close>, \<open>1\<close> at the three Gauss-Legendre points \<open>1/2 - \<surd>15/10\<close>,
  \<open>1/2\<close>, \<open>1/2 + \<surd>15/10\<close> of weights \<open>5/18\<close>, \<open>4/9\<close>, \<open>5/18\<close>, and
  their derivatives \<open>4x - 3\<close>, \<open>4 - 8x\<close>, \<open>4x - 1\<close> at these points and at the
  two vertices.
\<close>

definition fiat_two_nodes :: "nat \<Rightarrow> fiat_line" where
  "fiat_two_nodes degree =
     \<lparr>tab_J = [[1 / 2 + sqrt 3 / 6, 1 / 2 - sqrt 3 / 6], [1 / 2 - sqrt 3 / 6, 1 / 2 + sqrt 3 / 6]],
      tab_D = [[- 1, - 1], [1, 1]], weights = [1 / 2, 1 / 2],
      nodes = [0, 1], vert_D = [[- 1, - 1], [1, 1]]\<rparr>"

definition fiat_three_nodes :: "nat \<Rightarrow> fiat_line" where
  "fiat_three_nodes degree =
     \<lparr>tab_J = [[3 / 10 + sqrt 15 / 10, 0, 3 / 10 - sqrt 15 / 10],
               [2 / 5, 1, 2 / 5],
               [3 / 10 - sqrt 15 / 10, 0, 3 / 10 + sqrt 15 / 10]],
      tab_D = [[- 1 - 2 * sqrt 15 / 5, - 1, - 1 + 2 * sqrt 15 / 5],
               [4 * sqrt 15 / 5, 0, - (4 * sqrt 15 / 5)],
               [1 - 2 * sqrt 15 / 5, 1, 1 + 2 * sqrt 15 / 5]],
      weights = [5 / 18, 4 / 9, 5 / 18],
      nodes = [0, 1 / 2, 1],
      vert_D = [[- 3, 1], [4, - 4], [- 1, 3]]\<rparr>"

text \<open>
  With two nodes \<open>fdm_setup\<close> calls no routine of \<^verbatim>\<open>numpy.linalg\<close>;
  \<open>linalg_unused\<close> stands in for them.  With three nodes the interior block is a
  single number, and \<open>linalg_scalar\<close> is the three routines on arrays of shape
  \<open>(1, 1)\<close>: the square root, the reciprocal, and the eigenvalue with the
  eigenvector \<open>1\<close>.
\<close>

definition linalg_unused :: linalg where
  "linalg_unused = \<lparr>cholesky = (\<lambda>A. A), inv = (\<lambda>A. A), eigh = (\<lambda>A. ([], A))\<rparr>"

definition linalg_scalar :: linalg where
  "linalg_scalar =
     \<lparr>cholesky = (\<lambda>B. [[sqrt (B ! 0 ! 0)]]),
      inv = (\<lambda>L. [[1 / L ! 0 ! 0]]),
      eigh = (\<lambda>C. ([C ! 0 ! 0], [[1]]))\<rparr>"

text \<open>
  Two quadrilateral cells that share one facet.  Facet \<open>1\<close> of the first cell
  and facet \<open>0\<close> of the second are the shared interior facet, without a label
  (id \<open>-1\<close>); the other facets are exterior, with the labels \<open>1\<close>, \<open>2\<close>,
  \<open>3\<close>, and one without a label.
\<close>

definition mesh_two_cells :: facet_mesh where
  "mesh_two_cells =
     \<lparr>extruded = False,
      cell_to_facets_data = [[(0, 1), (1, - 1), (0, 3), (0, - 1)], [(1, - 1), (0, 2), (0, 3), (0, - 1)]],
      layers_array = [], marked_facets = []\<rparr>"


section \<open>Arrays\<close>

lemma length_mk_array [simp]: "length (mk_array r c f) = r"
  by (simp add: mk_array_def)

lemma shape0_mk_array [simp]: "shape0 (mk_array r c f) = r"
  by (simp add: shape0_def)

lemma shape1_mk_array [simp]: "shape1 (mk_array r c f) = (if r = 0 then 0 else c)"
  by (cases r) (simp_all add: shape1_def mk_array_def upt_conv_Cons del: upt_Suc)

lemma nth_mk_array [simp]: "i < r \<Longrightarrow> j < c \<Longrightarrow> mk_array r c f ! i ! j = f i j"
  by (simp add: mk_array_def)

lemma length_nth_mk_array [simp]: "i < r \<Longrightarrow> length (mk_array r c f ! i) = c"
  by (simp add: mk_array_def)

lemma is_array_mk_array [simp]: "is_array r c (mk_array r c f)"
  by (simp add: is_array_def mk_array_def list_all_iff)

lemma is_array_length: "is_array r c A \<Longrightarrow> length A = r"
  by (simp add: is_array_def)

lemma is_array_row: "is_array r c A \<Longrightarrow> i < r \<Longrightarrow> length (A ! i) = c"
  by (simp add: is_array_def list_all_length)

lemma is_array_shape0: "is_array r c A \<Longrightarrow> shape0 A = r"
  by (simp add: is_array_def shape0_def)

lemma is_array_shape1: "is_array r c A \<Longrightarrow> 0 < r \<Longrightarrow> shape1 A = c"
  by (cases A) (auto simp: is_array_def shape1_def)

lemma shape0_dot [simp]: "shape0 (dot X Y) = shape0 X"
  by (simp add: dot_def)

lemma shape1_dot [simp]: "shape1 (dot X Y) = (if shape0 X = 0 then 0 else shape1 Y)"
  by (simp add: dot_def)

lemma is_array_dot: "is_array (shape0 X) (shape1 Y) (dot X Y)"
  by (simp add: dot_def)

lemma shape0_transpose_arr [simp]: "shape0 (transpose_arr X) = shape1 X"
  by (simp add: transpose_arr_def)

lemma shape1_transpose_arr [simp]:
  "shape1 (transpose_arr X) = (if shape1 X = 0 then 0 else shape0 X)"
  by (simp add: transpose_arr_def)

lemma shape0_multiply [simp]: "shape0 (multiply D w) = shape0 D"
  by (simp add: multiply_def)

lemma shape0_eye [simp]: "shape0 (eye n) = n"
  by (simp add: eye_def)

lemma shape1_eye [simp]: "shape1 (eye n) = n"
  by (simp add: eye_def)

lemma is_array_transformed:
  "shape0 S = n \<Longrightarrow> shape1 S = n \<Longrightarrow> shape0 Ahat = n \<Longrightarrow> 0 < n \<Longrightarrow>
   is_array n n (transformed S Ahat)"
  using is_array_dot [of "transpose_arr S" "dot Ahat S"] by (simp add: transformed_def)

section \<open>Stored entries\<close>

lemma createAIJ_simps [simp]:
  "aij_shape (createAIJ sh) = sh" "aij_ent (createAIJ sh) = (\<lambda>_. None)"
  by (simp_all add: createAIJ_def)

lemma setValue_INSERT_ent [simp]:
  "aij_ent (setValue M i j v INSERT) = (aij_ent M)((i, j) \<mapsto> v)"
  by (simp add: setValue_def)

lemma setValue_shape [simp]: "aij_shape (setValue M i j v im) = aij_shape M"
  by (simp add: setValue_def)

lemma fold_diag_ent:
  "aij_ent (fold (\<lambda>j M. setValue M j j (f j) INSERT) [0..<m] M0) (i, j) =
     (if i = j \<and> i < m then Some (f i) else aij_ent M0 (i, j))"
  by (induction m) auto

lemma setValues_row_ent_gen:
  "length vals = n \<Longrightarrow>
   aij_ent (fold (\<lambda>(c, v) M'. setValue M' r c v INSERT) (zip [0..<n] vals) M) (i, j) =
     (if i = r \<and> j < n then Some (vals ! j) else aij_ent M (i, j))"
proof (induction vals arbitrary: n rule: rev_induct)
  case Nil
  then show ?case by simp
next
  case (snoc v vs)
  then obtain k where n: "n = Suc k" and k: "length vs = k" by (cases n) auto
  show ?case using snoc.IH[OF k] k
    by (auto simp: n nth_append less_Suc_eq)
qed

lemma setValues_row_ent:
  "length vals = n \<Longrightarrow>
   aij_ent (setValues_row M r [0..<n] vals INSERT) (i, j) =
     (if i = r \<and> j < n then Some (vals ! j) else aij_ent M (i, j))"
  unfolding setValues_row_def by (rule setValues_row_ent_gen)

lemma setValues_col_ent_gen:
  "length vals = n \<Longrightarrow>
   aij_ent (fold (\<lambda>(r, v) M'. setValue M' r c v INSERT) (zip [0..<n] vals) M) (i, j) =
     (if j = c \<and> i < n then Some (vals ! i) else aij_ent M (i, j))"
proof (induction vals arbitrary: n rule: rev_induct)
  case Nil
  then show ?case by simp
next
  case (snoc v vs)
  then obtain k where n: "n = Suc k" and k: "length vs = k" by (cases n) auto
  show ?case using snoc.IH[OF k] k
    by (auto simp: n nth_append less_Suc_eq)
qed

lemma setValues_col_ent:
  "length vals = n \<Longrightarrow>
   aij_ent (setValues_col M [0..<n] c vals INSERT) (i, j) =
     (if j = c \<and> i < n then Some (vals ! i) else aij_ent M (i, j))"
  unfolding setValues_col_def by (rule setValues_col_ent_gen)

text \<open>What \<open>numpy_to_petsc\<close> stores for a square array: without dense indices the
  diagonal and the two corners, with the dense indices \<open>0\<close> and \<open>n - 1\<close> the
  diagonal, the two outer rows and the two outer columns.\<close>

lemma numpy_to_petsc_corners:
  assumes A: "is_array n n A" and n: "0 < n"
  shows "\<exists>M. numpy_to_petsc A [] True = Inr M \<and>
           (\<forall>i j. aij_ent M (i, j) =
              (if i = n - 1 \<and> j = 0 then Some (A ! (n - 1) ! 0)
               else if i = 0 \<and> j = n - 1 then Some (A ! 0 ! (n - 1))
               else if i = j \<and> i < n then Some (A ! i ! i) else None))"
proof -
  have s0: "shape0 A = n" and s1: "shape1 A = n"
    using A n by (simp_all add: is_array_shape0 is_array_shape1)
  have r0: "length (A ! 0) = n" using A n by (simp add: is_array_row)
  have ne: "A \<noteq> []" using A n by (auto simp: is_array_def)
  have l0: "last (A ! 0) = A ! 0 ! (n - 1)"
    using r0 n by (simp add: last_conv_nth[of "A ! 0"] length_greater_0_conv[symmetric] del: length_greater_0_conv)
  have rl: "length (last A) = n"
    using A n ne by (simp add: last_conv_nth is_array_row is_array_length)
  have l1: "hd (last A) = A ! (n - 1) ! 0"
    using A n ne rl by (simp add: last_conv_nth is_array_length hd_conv_nth length_greater_0_conv[symmetric] del: length_greater_0_conv)
  show ?thesis
    using n by (simp add: numpy_to_petsc_def Let_def s0 s1 l0 l1 fold_diag_ent)
qed

lemma numpy_to_petsc_dense_ends:
  assumes A: "is_array n n A" and n: "0 < n"
  shows "\<exists>M. numpy_to_petsc A [0, n - 1] True = Inr M \<and>
           (\<forall>i j. aij_ent M (i, j) =
              (if j = n - 1 \<and> i < n then Some (A ! (n - 1) ! i)
               else if i = n - 1 \<and> j < n then Some (A ! (n - 1) ! j)
               else if j = 0 \<and> i < n then Some (A ! 0 ! i)
               else if i = 0 \<and> j < n then Some (A ! 0 ! j)
               else if i = j \<and> i < n then Some (A ! i ! i) else None))"
proof -
  have s0: "shape0 A = n" and s1: "shape1 A = n"
    using A n by (simp_all add: is_array_shape0 is_array_shape1)
  have r0: "length (A ! 0) = n" and r1: "length (A ! (n - Suc 0)) = n"
    using A n by (simp_all add: is_array_row)
  show ?thesis
    using n
    by (simp add: numpy_to_petsc_def Let_def s0 s1 fold_diag_ent
        setValues_row_ent[OF r0] setValues_col_ent[OF r0]
        setValues_row_ent[OF r1] setValues_col_ent[OF r1])
qed

section \<open>The catalog of interval matrices\<close>

lemma fdm_basis_shape [simp]:
  "shape0 (fdm_basis la Ahat Bhat) = shape0 Ahat"
  "shape1 (fdm_basis la Ahat Bhat) = shape0 Ahat"
  by (simp_all add: fdm_basis_def Let_def split: prod.splits)

lemma fdm_setup_shapes:
  assumes "fdm_setup la fiat d = (Ahat, Bhat, Sfdm, Dfdm)"
  shows "shape0 Ahat = length (tab_D (fiat d))"
    and "shape0 Bhat = length (tab_J (fiat d))"
    and "shape0 Sfdm = length (tab_D (fiat d))"
    and "shape1 Sfdm = length (tab_D (fiat d))"
proof -
  have A: "Ahat = fst (semhat (fiat d))" and B: "Bhat = fst (snd (semhat (fiat d)))"
    and S: "Sfdm = fdm_basis la Ahat Bhat"
    using assms by (auto simp: fdm_setup_def Let_def split: prod.splits)
  show "shape0 Ahat = length (tab_D (fiat d))"
    by (simp add: A semhat_def Let_def) (simp add: shape0_def)
  then show "shape0 Sfdm = length (tab_D (fiat d))" "shape1 Sfdm = length (tab_D (fiat d))"
    by (simp_all add: S)
  show "shape0 Bhat = length (tab_J (fiat d))"
    by (simp add: B semhat_def Let_def) (simp add: shape0_def)
qed

lemma transformed_arrays:
  assumes "fdm_setup la fiat d = (Ahat, Bhat, Sfdm, Dfdm)"
    and "length (tab_D (fiat d)) = n" and "length (tab_J (fiat d)) = n" and "0 < n"
  shows "is_array n n (transformed Sfdm Ahat)" and "is_array n n (transformed Sfdm Bhat)"
proof -
  note sh = fdm_setup_shapes[OF assms(1)]
  have "shape0 (transpose_arr Sfdm) = n" using sh assms by simp
  moreover have "shape1 (dot Ahat Sfdm) = n" "shape1 (dot Bhat Sfdm) = n" using sh assms by simp_all
  ultimately show "is_array n n (transformed Sfdm Ahat)" "is_array n n (transformed Sfdm Bhat)"
    using is_array_dot [of "transpose_arr Sfdm" "dot Ahat Sfdm"]
      is_array_dot [of "transpose_arr Sfdm" "dot Bhat Sfdm"]
    by (simp_all add: transformed_def)
qed

lemma bc_loop_eq: "bc_loop = [(0, 0), (1, 0), (0, 1), (1, 1)]"
  by (simp add: bc_loop_def upt_conv_Cons del: upt_Suc)

lemma bind_err_Inr [simp]: "bind_err (Inr v) f = f v"
  by (simp add: bind_err_def)

lemma bind_err_Inl [simp]: "bind_err (Inl e) f = Inl e"
  by (simp add: bind_err_def)

lemma strong_bcs_array_is_array:
  assumes "is_array n n A" and "0 < n"
  shows "is_array n n (strong_bcs_array A bc0 bc1)"
  using assms
  by (simp add: strong_bcs_array_def fill_diagonal_def Let_def is_array_shape0 is_array_shape1)

lemma strong_bcs_array_nth:
  assumes "is_array n n A" and "0 < n" and "i < n" and "j < n"
  shows "strong_bcs_array A bc0 bc1 ! i ! j =
           (if i = j then A ! i ! i
            else if (if bc0 = 1 then 0 else 1) \<le> i \<and> i < (if bc1 = 1 then n else n - 1) \<and>
                    (if bc0 = 1 then 0 else 1) \<le> j \<and> j < (if bc1 = 1 then n else n - 1)
                 then 0 else A ! i ! j)"
  using assms
  by (auto simp: strong_bcs_array_def fill_diagonal_def diagonal_def slice_bound_def Let_def
      is_array_shape0 is_array_shape1)

lemma apply_strong_bcs_Inr:
  assumes "is_array n n A" and "0 < n"
  shows "\<exists>M. apply_strong_bcs A bc0 bc1 = Inr M"
  using numpy_to_petsc_dense_ends [OF strong_bcs_array_is_array [OF assms, of bc0 bc1] assms(2)]
    strong_bcs_array_is_array [OF assms, of bc0 bc1]
  by (auto simp: apply_strong_bcs_def Let_def is_array_shape0)

lemma fdm_setup_cg_catalog:
  assumes fs: "fdm_setup la fiat d = (Ahat, Bhat, Sfdm, Dfdm)"
    and D: "length (tab_D (fiat d)) = n" and J: "length (tab_J (fiat d)) = n" and n: "0 < n"
  shows "\<exists>B0 A00 A10 A01 A11.
           fdm_setup_cg la fiat d = Inr ([B0, A00, A10, A01, A11], None) \<and>
           numpy_to_petsc (transformed Sfdm Bhat) [] True = Inr B0 \<and>
           apply_strong_bcs (transformed Sfdm Ahat) 0 0 = Inr A00 \<and>
           apply_strong_bcs (transformed Sfdm Ahat) 1 0 = Inr A10 \<and>
           apply_strong_bcs (transformed Sfdm Ahat) 0 1 = Inr A01 \<and>
           apply_strong_bcs (transformed Sfdm Ahat) 1 1 = Inr A11"
proof -
  note arr = transformed_arrays [OF fs D J n]
  obtain B0 where B0: "numpy_to_petsc (transformed Sfdm Bhat) [] True = Inr B0"
    using numpy_to_petsc_corners [OF arr(2) n] by blast
  obtain A00 A10 A01 A11 where A:
    "apply_strong_bcs (transformed Sfdm Ahat) 0 0 = Inr A00"
    "apply_strong_bcs (transformed Sfdm Ahat) 1 0 = Inr A10"
    "apply_strong_bcs (transformed Sfdm Ahat) 0 1 = Inr A01"
    "apply_strong_bcs (transformed Sfdm Ahat) 1 1 = Inr A11"
    using apply_strong_bcs_Inr [OF arr(1) n] by meson
  show ?thesis
    using fs B0 A by (simp add: fdm_setup_cg_def bc_loop_eq)
qed

lemma weak_bc_step_is_array:
  assumes "is_array n n Abc" and "0 < n"
  shows "is_array n n (weak_bc_step Dfacet jA jD b eta Abc)"
  using assms by (simp add: weak_bc_step_def Let_def is_array_shape0 is_array_shape1)


lemma weak_bcs_array_is_array:
  assumes "is_array n n A" and "0 < n"
  shows "is_array n n (weak_bcs_array A Dfacet bcs eta)"
  using assms by (simp add: weak_bcs_array_def Let_def weak_bc_step_is_array)


lemma apply_weak_bcs_Inr:
  assumes "is_array n n A" and "0 < n" and "0 < shape1 Dfacet"
  shows "\<exists>M. apply_weak_bcs A Dfacet bcs eta = Inr M"
  using numpy_to_petsc_dense_ends [OF weak_bcs_array_is_array [OF assms(1,2), of Dfacet bcs eta] assms(2)]
    weak_bcs_array_is_array [OF assms(1,2), of Dfacet bcs eta] assms
  by (auto simp: apply_weak_bcs_def Let_def is_array_shape0 is_array_shape1)

lemma shape1_flip_first_column [simp]:
  "shape1 (flip_first_column D) = shape1 D"
  by (simp add: flip_first_column_def) (cases D; simp add: shape0_def shape1_def)

lemma fdm_setup_Dfdm:
  assumes "fdm_setup la fiat d = (Ahat, Bhat, Sfdm, Dfdm)"
  shows "Dfdm = dot (transpose_arr Sfdm) (flip_first_column (vert_D (fiat d)))"
  using assms by (auto simp: fdm_setup_def facet_derivative_def Let_def split: prod.splits)

lemma fdm_setup_ipdg_catalog:
  assumes fs: "fdm_setup la fiat d = (Ahat, Bhat, Sfdm, Dfdm)"
    and D: "length (tab_D (fiat d)) = n" and J: "length (tab_J (fiat d)) = n" and n: "0 < n"
    and V: "is_array n 2 (vert_D (fiat d))"
  shows "\<exists>B0 A00 A10 A01 A11.
           fdm_setup_ipdg la fiat d eta = Inr ([B0, A00, A10, A01, A11], Some Dfdm) \<and>
           numpy_to_petsc (transformed Sfdm Bhat) [] True = Inr B0 \<and>
           apply_weak_bcs (transformed Sfdm Ahat) Dfdm (0, 0) eta = Inr A00 \<and>
           apply_weak_bcs (transformed Sfdm Ahat) Dfdm (1, 0) eta = Inr A10 \<and>
           apply_weak_bcs (transformed Sfdm Ahat) Dfdm (0, 1) eta = Inr A01 \<and>
           apply_weak_bcs (transformed Sfdm Ahat) Dfdm (1, 1) eta = Inr A11"
proof -
  note arr = transformed_arrays [OF fs D J n]
  note sh = fdm_setup_shapes [OF fs]
  have "shape1 Dfdm = 2"
    using sh D n V by (simp add: fdm_setup_Dfdm [OF fs] is_array_shape1)
  then have pos: "0 < shape1 Dfdm" by simp
  obtain B0 where B0: "numpy_to_petsc (transformed Sfdm Bhat) [] True = Inr B0"
    using numpy_to_petsc_corners [OF arr(2) n] by blast
  obtain A00 A10 A01 A11 where A:
    "apply_weak_bcs (transformed Sfdm Ahat) Dfdm (0, 0) eta = Inr A00"
    "apply_weak_bcs (transformed Sfdm Ahat) Dfdm (1, 0) eta = Inr A10"
    "apply_weak_bcs (transformed Sfdm Ahat) Dfdm (0, 1) eta = Inr A01"
    "apply_weak_bcs (transformed Sfdm Ahat) Dfdm (1, 1) eta = Inr A11"
    using apply_weak_bcs_Inr [OF arr(1) n pos] by meson
  show ?thesis
    using fs B0 A by (simp add: fdm_setup_ipdg_def bc_loop_eq)
qed

lemma gauss_two_points:
  "(1 / 2 + sqrt 3 / 6) * (1 / 2) * (1 / 2 + sqrt 3 / 6) +
   ((1 / 2 - sqrt 3 / 6) * (1 / 2) * (1 / 2 - sqrt 3 / 6) + 0) = 1 / 3"
  "(1 / 2 + sqrt 3 / 6) * (1 / 2) * (1 / 2 - sqrt 3 / 6) +
   ((1 / 2 - sqrt 3 / 6) * (1 / 2) * (1 / 2 + sqrt 3 / 6) + 0) = 1 / 6"
  "(1 / 2 - sqrt 3 / 6) * (1 / 2) * (1 / 2 + sqrt 3 / 6) +
   ((1 / 2 + sqrt 3 / 6) * (1 / 2) * (1 / 2 - sqrt 3 / 6) + 0) = 1 / 6"
  "(1 / 2 - sqrt 3 / 6) * (1 / 2) * (1 / 2 - sqrt 3 / 6) +
   ((1 / 2 + sqrt 3 / 6) * (1 / 2) * (1 / 2 + sqrt 3 / 6) + 0) = 1 / 3"
proof -
  have s: "sqrt 3 * sqrt 3 = 3" by simp
  show "(1 / 2 + sqrt 3 / 6) * (1 / 2) * (1 / 2 + sqrt 3 / 6) +
   ((1 / 2 - sqrt 3 / 6) * (1 / 2) * (1 / 2 - sqrt 3 / 6) + 0) = 1 / 3"
    using s by (simp add: algebra_simps)
  then show "(1 / 2 - sqrt 3 / 6) * (1 / 2) * (1 / 2 - sqrt 3 / 6) +
   ((1 / 2 + sqrt 3 / 6) * (1 / 2) * (1 / 2 + sqrt 3 / 6) + 0) = 1 / 3"
    by (simp only: add_0_right add.commute)
  show "(1 / 2 + sqrt 3 / 6) * (1 / 2) * (1 / 2 - sqrt 3 / 6) +
   ((1 / 2 - sqrt 3 / 6) * (1 / 2) * (1 / 2 + sqrt 3 / 6) + 0) = 1 / 6"
    using s by (simp add: algebra_simps)
  then show "(1 / 2 - sqrt 3 / 6) * (1 / 2) * (1 / 2 + sqrt 3 / 6) +
   ((1 / 2 + sqrt 3 / 6) * (1 / 2) * (1 / 2 - sqrt 3 / 6) + 0) = 1 / 6"
    by (simp only: add_0_right add.commute)
qed

lemma semhat_two_nodes:
  "semhat (fiat_two_nodes 1) =
     ([[1, - 1], [- 1, 1]], [[1 / 3, 1 / 6], [1 / 6, 1 / 3]], tab_J (fiat_two_nodes 1), tab_D (fiat_two_nodes 1), [0, 1])"
proof -
  have J: "dot (multiply (tab_J (fiat_two_nodes 1)) (weights (fiat_two_nodes 1))) (transpose_arr (tab_J (fiat_two_nodes 1))) =
      [[(1 / 2 + sqrt 3 / 6) * (1 / 2) * (1 / 2 + sqrt 3 / 6) +
          ((1 / 2 - sqrt 3 / 6) * (1 / 2) * (1 / 2 - sqrt 3 / 6) + 0),
        (1 / 2 + sqrt 3 / 6) * (1 / 2) * (1 / 2 - sqrt 3 / 6) +
          ((1 / 2 - sqrt 3 / 6) * (1 / 2) * (1 / 2 + sqrt 3 / 6) + 0)],
       [(1 / 2 - sqrt 3 / 6) * (1 / 2) * (1 / 2 + sqrt 3 / 6) +
          ((1 / 2 + sqrt 3 / 6) * (1 / 2) * (1 / 2 - sqrt 3 / 6) + 0),
        (1 / 2 - sqrt 3 / 6) * (1 / 2) * (1 / 2 - sqrt 3 / 6) +
          ((1 / 2 + sqrt 3 / 6) * (1 / 2) * (1 / 2 + sqrt 3 / 6) + 0)]]"
    by (simp only: fiat_two_nodes_def fiat_line.simps dot_def multiply_def transpose_arr_def mk_array_def
        shape0_def shape1_def list.case list.size upt_conv_Cons upt_conv_Nil list.map nth_Cons_0
        nth_Cons_Suc sum_list.Cons sum_list.Nil)
  have D: "dot (multiply (tab_D (fiat_two_nodes 1)) (weights (fiat_two_nodes 1))) (transpose_arr (tab_D (fiat_two_nodes 1))) =
      [[1, - 1], [- 1, 1]]"
    by (simp add: fiat_two_nodes_def dot_def multiply_def transpose_arr_def mk_array_def
        shape0_def shape1_def upt_conv_Cons del: upt_Suc)
  show ?thesis
    unfolding semhat_def Let_def J D gauss_two_points by (simp add: fiat_two_nodes_def)
qed

lemma fdm_setup_two_nodes:
  "fdm_setup linalg_unused fiat_two_nodes 1 =
     ([[1, - 1], [- 1, 1]], [[1 / 3, 1 / 6], [1 / 6, 1 / 3]], [[1, 0], [0, 1]], [[1, - 1], [- 1, 1]])"
proof -
  have S: "fdm_basis linalg_unused [[1, - 1], [- 1, 1]] [[1 / 3, 1 / 6], [1 / 6, 1 / 3]] = [[1, 0], [0, 1]]"
    by (simp add: fdm_basis_def eye_def mk_array_def shape0_def upt_conv_Cons del: upt_Suc)
  have F: "facet_derivative (fiat_two_nodes 1) [[1, 0], [0, 1]] = [[1, - 1], [- 1, 1]]"
    by (simp add: facet_derivative_def flip_first_column_def fiat_two_nodes_def dot_def transpose_arr_def
        mk_array_def shape0_def shape1_def upt_conv_Cons del: upt_Suc)
  show ?thesis
    unfolding fdm_setup_def Let_def semhat_two_nodes prod.case S F by (rule refl)
qed


section \<open>Symmetry of the interval matrices\<close>

lemma dot_nth:
  "i < shape0 X \<Longrightarrow> j < shape1 Y \<Longrightarrow>
   dot X Y ! i ! j = sum_list (map (\<lambda>k. X ! i ! k * Y ! k ! j) [0..<shape0 Y])"
  by (simp add: dot_def)

lemma transpose_arr_nth:
  "i < shape1 X \<Longrightarrow> j < shape0 X \<Longrightarrow> transpose_arr X ! i ! j = X ! j ! i"
  by (simp add: transpose_arr_def)

lemma sum_list_upt_swap:
  "sum_list (map (\<lambda>k. sum_list (map (\<lambda>l. f k l) [0..<m])) [0..<n]) =
   sum_list (map (\<lambda>l. sum_list (map (\<lambda>k. (f k l :: real)) [0..<n])) [0..<m])"
  by (simp add: interv_sum_list_conv_sum_set_nat sum.swap [of _ "{0..<m}"])

lemma sum_list_upt_cong:
  "(\<And>k. k < n \<Longrightarrow> f k = g k) \<Longrightarrow> sum_list (map f [0..<n]) = sum_list (map g [0..<n])"
  by (rule arg_cong [where f = sum_list]) simp

lemma semhat_symmetric:
  assumes "is_array n m (tab_D el)" and "0 < m" and "i < n" and "j < n"
  shows "fst (semhat el) ! i ! j = fst (semhat el) ! j ! i"
proof -
  have n: "0 < n" using assms by simp
  have s: "shape0 (tab_D el) = n" "shape1 (tab_D el) = m"
    using assms n by (simp_all add: is_array_shape0 is_array_shape1)
  have "fst (semhat el) ! i ! j =
      sum_list (map (\<lambda>k. tab_D el ! i ! k * weights el ! k * tab_D el ! j ! k) [0..<m])"
    if "i < n" "j < n" for i j
    using that s assms(2) n
    by (simp add: semhat_def Let_def dot_nth) (rule sum_list_upt_cong, simp add: transpose_arr_nth multiply_def)
  then show ?thesis
    using assms by (simp add: mult_ac)
qed

lemma transformed_nth:
  assumes S: "is_array n n S" and A: "is_array n n A" and n: "0 < n" and i: "i < n" and j: "j < n"
  shows "transformed S A ! i ! j =
           sum_list (map (\<lambda>k. sum_list (map (\<lambda>l. S ! k ! i * A ! k ! l * S ! l ! j) [0..<n])) [0..<n])"
proof -
  have s: "shape0 S = n" "shape1 S = n" "shape0 A = n" "shape1 A = n"
    using S A n by (simp_all add: is_array_shape0 is_array_shape1)
  have "transformed S A ! i ! j =
          sum_list (map (\<lambda>k. transpose_arr S ! i ! k * dot A S ! k ! j) [0..<n])"
    using i j n s by (simp add: transformed_def dot_nth)
  also have "\<dots> = sum_list (map (\<lambda>k. S ! k ! i *
                       sum_list (map (\<lambda>l. A ! k ! l * S ! l ! j) [0..<n])) [0..<n])"
    using i j n s by (intro sum_list_upt_cong) (simp add: transpose_arr_nth dot_nth)
  also have "\<dots> = sum_list (map (\<lambda>k. sum_list (map (\<lambda>l. S ! k ! i * A ! k ! l * S ! l ! j) [0..<n])) [0..<n])"
    by (intro sum_list_upt_cong) (simp add: sum_list_const_mult mult.assoc)
  finally show ?thesis .
qed

lemma transformed_symmetric:
  assumes S: "is_array n n S" and A: "is_array n n A" and n: "0 < n" and i: "i < n" and j: "j < n"
    and sym: "\<And>k l. k < n \<Longrightarrow> l < n \<Longrightarrow> A ! k ! l = A ! l ! k"
  shows "transformed S A ! i ! j = transformed S A ! j ! i"
proof -
  have "transformed S A ! j ! i =
      sum_list (map (\<lambda>k. sum_list (map (\<lambda>l. S ! k ! j * A ! k ! l * S ! l ! i) [0..<n])) [0..<n])"
    by (rule transformed_nth [OF S A n j i])
  also have "\<dots> = sum_list (map (\<lambda>l. sum_list (map (\<lambda>k. S ! k ! j * A ! k ! l * S ! l ! i) [0..<n])) [0..<n])"
    by (rule sum_list_upt_swap)
  also have "\<dots> = sum_list (map (\<lambda>l. sum_list (map (\<lambda>k. S ! l ! i * A ! l ! k * S ! k ! j) [0..<n])) [0..<n])"
    by (intro sum_list_upt_cong) (simp add: sym mult_ac)
  also have "\<dots> = transformed S A ! i ! j"
    by (rule transformed_nth [OF S A n i j, symmetric])
  finally show ?thesis by simp
qed


lemma is_array_fdm_basis: "is_array (shape0 Ahat) (shape0 Ahat) (fdm_basis la Ahat Bhat)"
  by (simp add: fdm_basis_def Let_def eye_def split: prod.splits)

lemma is_array_semhat:
  "0 < shape1 (tab_D el) \<Longrightarrow>
   is_array (shape0 (tab_D el)) (shape0 (tab_D el)) (fst (semhat el))"
  using is_array_dot [of "multiply (tab_D el) (weights el)" "transpose_arr (tab_D el)"]
  by (simp add: semhat_def Let_def)

lemma apply_strong_bcs_entries:
  assumes A: "is_array n n A" and n: "0 < n"
  shows "\<exists>M. apply_strong_bcs A bc0 bc1 = Inr M \<and>
           (\<forall>i j. aij_ent M (i, j) =
              (if i < n \<and> j < n \<and> (i = j \<or> i = 0 \<or> i = n - 1 \<or> j = 0 \<or> j = n - 1)
               then Some (if j = n - 1 \<or> (j = 0 \<and> i \<noteq> n - 1)
                          then strong_bcs_array A bc0 bc1 ! j ! i
                          else strong_bcs_array A bc0 bc1 ! i ! j)
               else None))"
proof -
  let ?B = "strong_bcs_array A bc0 bc1"
  have B: "is_array n n ?B" by (rule strong_bcs_array_is_array [OF A n])
  obtain M where M: "numpy_to_petsc ?B [0, n - 1] True = Inr M"
    and ent: "\<And>i j. aij_ent M (i, j) =
              (if j = n - 1 \<and> i < n then Some (?B ! (n - 1) ! i)
               else if i = n - 1 \<and> j < n then Some (?B ! (n - 1) ! j)
               else if j = 0 \<and> i < n then Some (?B ! 0 ! i)
               else if i = 0 \<and> j < n then Some (?B ! 0 ! j)
               else if i = j \<and> i < n then Some (?B ! i ! i) else None)"
    using numpy_to_petsc_dense_ends [OF B n] by blast
  have "apply_strong_bcs A bc0 bc1 = Inr M"
    using M B by (simp add: apply_strong_bcs_def Let_def is_array_shape0)
  moreover have "\<forall>i j. aij_ent M (i, j) =
              (if i < n \<and> j < n \<and> (i = j \<or> i = 0 \<or> i = n - 1 \<or> j = 0 \<or> j = n - 1)
               then Some (if j = n - 1 \<or> (j = 0 \<and> i \<noteq> n - 1) then ?B ! j ! i else ?B ! i ! j)
               else None)"
    using n by (auto simp: ent)
  ultimately show ?thesis by blast
qed


lemma fdm_setup_stiffness:
  assumes fs: "fdm_setup la fiat d = (Ahat, Bhat, Sfdm, Dfdm)"
    and D: "is_array n m (tab_D (fiat d))" and m: "0 < m"
    and J: "length (tab_J (fiat d)) = n" and n: "0 < n"
  shows "is_array n n (transformed Sfdm Ahat)"
    and "\<And>i j. i < n \<Longrightarrow> j < n \<Longrightarrow>
           transformed Sfdm Ahat ! i ! j = transformed Sfdm Ahat ! j ! i"
proof -
  have A: "Ahat = fst (semhat (fiat d))" and S: "Sfdm = fdm_basis la Ahat Bhat"
    using fs by (auto simp: fdm_setup_def Let_def split: prod.splits)
  have s: "shape0 (tab_D (fiat d)) = n" "shape1 (tab_D (fiat d)) = m"
    using D n by (simp_all add: is_array_shape0 is_array_shape1)
  have arrA: "is_array n n Ahat"
    using is_array_semhat [of "fiat d"] s m by (simp add: A)
  have arrS: "is_array n n Sfdm"
    using is_array_fdm_basis [of Ahat la Bhat] arrA by (simp add: S is_array_shape0)
  have symA: "\<And>k l. k < n \<Longrightarrow> l < n \<Longrightarrow> Ahat ! k ! l = Ahat ! l ! k"
    unfolding A by (rule semhat_symmetric [OF D m])
  show "is_array n n (transformed Sfdm Ahat)"
    using arrA arrS n by (simp add: is_array_transformed is_array_shape0 is_array_shape1)
  show "\<And>i j. i < n \<Longrightarrow> j < n \<Longrightarrow>
           transformed Sfdm Ahat ! i ! j = transformed Sfdm Ahat ! j ! i"
    by (rule transformed_symmetric [OF arrS arrA n _ _ symA])
qed

lemma transformed_two_nodes:
  "transformed [[1, 0], [0, 1]] [[1, - 1], [- 1, 1]] = [[1, - 1], [- 1, 1::real]]"
  by (simp add: transformed_def dot_def transpose_arr_def mk_array_def shape0_def shape1_def
      upt_conv_Cons del: upt_Suc)

lemma two_nodes_tabulation:
  "is_array (1 + 1) 2 (tab_D (fiat_two_nodes 1))" "length (tab_J (fiat_two_nodes 1)) = 1 + 1"
  "length (tab_D (fiat_two_nodes 1)) = 1 + 1"
  by (simp_all add: fiat_two_nodes_def is_array_def)


section \<open>The eigenbasis\<close>

text \<open>Products of arrays, the eigenvectors that \<open>sym_eig\<close> returns when
  \<^verbatim>\<open>numpy.linalg\<close> is exact, and the blocks of a matrix in the basis of
  \<open>fdm_basis\<close>.\<close>

lemma array_eqI:
  assumes X: "is_array r c X" and Y: "is_array r c Y"
    and eq: "\<And>i j. i < r \<Longrightarrow> j < c \<Longrightarrow> X ! i ! j = Y ! i ! j"
  shows "X = Y"
proof (rule nth_equalityI)
  show "length X = length Y" using X Y by (simp add: is_array_length)
  fix i assume "i < length X"
  then have i: "i < r" using X by (simp add: is_array_length)
  show "X ! i = Y ! i"
    using is_array_row [OF X i] is_array_row [OF Y i] eq [OF i]
    by (intro nth_equalityI) simp_all
qed

lemma is_array_dot':
  assumes "is_array a b X" and "is_array b c Y" and "0 < b"
  shows "is_array a c (dot X Y)"
  using is_array_dot [of X Y] assms by (simp add: is_array_shape0 is_array_shape1)

lemma dot_nth':
  assumes "is_array a b X" and "is_array b c Y" and "0 < b" and "i < a" and "j < c"
  shows "dot X Y ! i ! j = sum_list (map (\<lambda>k. X ! i ! k * Y ! k ! j) [0..<b])"
  using assms by (simp add: dot_nth is_array_shape0 is_array_shape1)

lemma is_array_transpose:
  assumes "is_array a b X" and "0 < a"
  shows "is_array b a (transpose_arr X)"
  using assms by (simp add: transpose_arr_def is_array_shape0 is_array_shape1)

lemma transpose_nth':
  assumes "is_array a b X" and "i < b" and "j < a"
  shows "transpose_arr X ! i ! j = X ! j ! i"
  using assms by (simp add: transpose_arr_nth is_array_shape0 is_array_shape1)

lemma is_array_eye: "is_array n n (eye n)"
  by (simp add: eye_def)

lemma eye_nth: "i < n \<Longrightarrow> j < n \<Longrightarrow> eye n ! i ! j = (if i = j then 1 else 0)"
  by (simp add: eye_def)

lemma sum_list_delta:
  "j < n \<Longrightarrow> sum_list (map (\<lambda>k. if k = j then f k else (0::real)) [0..<n]) = f j"
  by (simp add: interv_sum_list_conv_sum_set_nat)

lemma sum_list_delta':
  "j < n \<Longrightarrow> sum_list (map (\<lambda>k. if j = k then f k else (0::real)) [0..<n]) = f j"
  by (simp add: interv_sum_list_conv_sum_set_nat)

lemma dot_assoc:
  assumes X: "is_array a b X" and Y: "is_array b c Y" and Z: "is_array c e Z"
    and b: "0 < b" and c: "0 < c"
  shows "dot (dot X Y) Z = dot X (dot Y Z)"
proof (rule array_eqI)
  show "is_array a e (dot (dot X Y) Z)"
    by (rule is_array_dot' [OF is_array_dot' [OF X Y b] Z c])
  show "is_array a e (dot X (dot Y Z))"
    by (rule is_array_dot' [OF X is_array_dot' [OF Y Z c] b])
  fix i j assume i: "i < a" and j: "j < e"
  have "dot (dot X Y) Z ! i ! j =
        sum_list (map (\<lambda>k. sum_list (map (\<lambda>l. X ! i ! l * Y ! l ! k * Z ! k ! j) [0..<b])) [0..<c])"
    unfolding dot_nth' [OF is_array_dot' [OF X Y b] Z c i j]
    by (intro sum_list_upt_cong) (simp add: dot_nth' [OF X Y b i] sum_list_mult_const)
  also have "\<dots> =
        sum_list (map (\<lambda>l. sum_list (map (\<lambda>k. X ! i ! l * Y ! l ! k * Z ! k ! j) [0..<c])) [0..<b])"
    by (rule sum_list_upt_swap)
  also have "\<dots> = dot X (dot Y Z) ! i ! j"
    unfolding dot_nth' [OF X is_array_dot' [OF Y Z c] b i j]
    by (intro sum_list_upt_cong) (simp add: dot_nth' [OF Y Z c _ j] sum_list_const_mult mult.assoc)
  finally show "dot (dot X Y) Z ! i ! j = dot X (dot Y Z) ! i ! j" .
qed

lemma transpose_dot:
  assumes X: "is_array a b X" and Y: "is_array b c Y" and a: "0 < a" and b: "0 < b" and c: "0 < c"
  shows "transpose_arr (dot X Y) = dot (transpose_arr Y) (transpose_arr X)"
proof (rule array_eqI)
  note XY = is_array_dot' [OF X Y b]
  show "is_array c a (transpose_arr (dot X Y))" by (rule is_array_transpose [OF XY a])
  show "is_array c a (dot (transpose_arr Y) (transpose_arr X))"
    by (rule is_array_dot' [OF is_array_transpose [OF Y b] is_array_transpose [OF X a] b])
  fix i j assume i: "i < c" and j: "j < a"
  show "transpose_arr (dot X Y) ! i ! j = dot (transpose_arr Y) (transpose_arr X) ! i ! j"
    unfolding transpose_nth' [OF XY i j] dot_nth' [OF X Y b j i]
      dot_nth' [OF is_array_transpose [OF Y b] is_array_transpose [OF X a] b i j]
    by (intro sum_list_upt_cong) (simp add: transpose_nth' [OF Y i] transpose_nth' [OF X _ j])
qed

lemma transpose_transpose:
  assumes X: "is_array a b X" and a: "0 < a" and b: "0 < b"
  shows "transpose_arr (transpose_arr X) = X"
proof (rule array_eqI)
  note T = is_array_transpose [OF X a]
  show "is_array a b (transpose_arr (transpose_arr X))" by (rule is_array_transpose [OF T b])
  show "is_array a b X" by (rule X)
  fix i j assume "i < a" "j < b"
  then show "transpose_arr (transpose_arr X) ! i ! j = X ! i ! j"
    by (simp add: transpose_nth' [OF T] transpose_nth' [OF X])
qed

lemma transpose_eye: "transpose_arr (eye n) = eye n"
proof (cases "n = 0")
  case True
  then show ?thesis by (simp add: transpose_arr_def eye_def mk_array_def shape0_def shape1_def)
next
  case False
  then have n: "0 < n" by simp
  show ?thesis
  proof (rule array_eqI)
    show "is_array n n (transpose_arr (eye n))" by (rule is_array_transpose [OF is_array_eye n])
    show "is_array n n (eye n)" by (rule is_array_eye)
    fix i j assume "i < n" "j < n"
    then show "transpose_arr (eye n) ! i ! j = eye n ! i ! j"
      by (auto simp: transpose_nth' [OF is_array_eye] eye_nth)
  qed
qed

lemma dot_eye_right:
  assumes X: "is_array a b X" and b: "0 < b"
  shows "dot X (eye b) = X"
proof (rule array_eqI)
  show "is_array a b (dot X (eye b))" by (rule is_array_dot' [OF X is_array_eye b])
  show "is_array a b X" by (rule X)
  fix i j assume i: "i < a" and j: "j < b"
  have "dot X (eye b) ! i ! j = sum_list (map (\<lambda>k. if k = j then X ! i ! k else 0) [0..<b])"
    unfolding dot_nth' [OF X is_array_eye b i j]
    using j by (intro sum_list_upt_cong) (simp add: eye_nth)
  then show "dot X (eye b) ! i ! j = X ! i ! j" using j by (simp add: sum_list_delta)
qed

lemma dot_eye_left:
  assumes X: "is_array a b X" and a: "0 < a"
  shows "dot (eye a) X = X"
proof (rule array_eqI)
  show "is_array a b (dot (eye a) X)" by (rule is_array_dot' [OF is_array_eye X a])
  show "is_array a b X" by (rule X)
  fix i j assume i: "i < a" and j: "j < b"
  have "dot (eye a) X ! i ! j = sum_list (map (\<lambda>k. if k = i then X ! k ! j else 0) [0..<a])"
    unfolding dot_nth' [OF is_array_eye X a i j]
    using i by (intro sum_list_upt_cong) (auto simp: eye_nth)
  then show "dot (eye a) X ! i ! j = X ! i ! j" using i by (simp add: sum_list_delta)
qed


lemma sym_eig_exact:
  assumes ex: "linalg_exact la A B" and A: "is_array m m A" and B: "is_array m m B"
    and m: "0 < m" and se: "sym_eig la A B = (Z, V)"
  shows "is_array m m V"
    and "dot (transpose_arr V) (dot B V) = eye m"
    and "dot (transpose_arr V) (dot A V) = diag_array Z"
    and "length Z = m"
proof -
  define L where "L = cholesky la B"
  define Li where "Li = inv la L"
  define C where "C = dot Li (dot A (transpose_arr Li))"
  obtain Z' W where e: "eigh la C = (Z', W)" by (cases "eigh la C")
  have sB: "shape0 B = m" using B by (simp add: is_array_shape0)
  have V: "V = dot (transpose_arr Li) W" and Z: "Z = Z'"
    using se e by (simp_all add: sym_eig_def Let_def L_def Li_def C_def)
  have h: "is_array m m L" "dot L (transpose_arr L) = B" "is_array m m Li" "dot Li L = eye m"
    "is_array m m W" "length Z' = m" "dot (transpose_arr W) W = eye m"
    "dot (transpose_arr W) (dot C W) = diag_array Z'"
    using ex e by (simp_all add: linalg_exact_def Let_def sB L_def [symmetric] Li_def [symmetric]
        C_def [symmetric])
  note Lt = is_array_transpose [OF h(1) m]
  note Lit = is_array_transpose [OF h(3) m]
  note Wt = is_array_transpose [OF h(5) m]
  show aV: "is_array m m V" unfolding V by (rule is_array_dot' [OF Lit h(5) m])
  show "length Z = m" using h(6) Z by simp
  have Vt: "transpose_arr V = dot (transpose_arr W) Li"
    unfolding V by (simp add: transpose_dot [OF Lit h(5) m m m] transpose_transpose [OF h(3) m m])
  have LtLit: "dot (transpose_arr L) (transpose_arr Li) = eye m"
    using transpose_dot [OF h(3) h(1) m m m] by (simp add: h(4) transpose_eye)
  have BV: "dot B V = dot L W"
  proof -
    have "dot B V = dot (dot L (transpose_arr L)) (dot (transpose_arr Li) W)"
      by (simp add: h(2) V)
    also have "\<dots> = dot L (dot (transpose_arr L) (dot (transpose_arr Li) W))"
      by (rule dot_assoc [OF h(1) Lt is_array_dot' [OF Lit h(5) m] m m])
    also have "dot (transpose_arr L) (dot (transpose_arr Li) W) =
               dot (dot (transpose_arr L) (transpose_arr Li)) W"
      by (rule dot_assoc [OF Lt Lit h(5) m m, symmetric])
    also have "\<dots> = W" by (simp add: LtLit dot_eye_left [OF h(5) m])
    finally show ?thesis .
  qed
  have "dot (transpose_arr V) (dot B V) = dot (dot (transpose_arr W) Li) (dot L W)"
    by (simp add: Vt BV)
  also have "\<dots> = dot (transpose_arr W) (dot Li (dot L W))"
    by (rule dot_assoc [OF Wt h(3) is_array_dot' [OF h(1) h(5) m] m m])
  also have "dot Li (dot L W) = dot (dot Li L) W"
    by (rule dot_assoc [OF h(3) h(1) h(5) m m, symmetric])
  also have "\<dots> = W" by (simp add: h(4) dot_eye_left [OF h(5) m])
  finally show "dot (transpose_arr V) (dot B V) = eye m" by (simp add: h(7))
  have AV: "is_array m m (dot A V)" by (rule is_array_dot' [OF A aV m])
  have "dot (transpose_arr V) (dot A V) = dot (dot (transpose_arr W) Li) (dot A (dot (transpose_arr Li) W))"
    by (simp add: Vt [unfolded V] V)
  also have "\<dots> = dot (transpose_arr W) (dot Li (dot A (dot (transpose_arr Li) W)))"
    by (rule dot_assoc [OF Wt h(3) is_array_dot' [OF A is_array_dot' [OF Lit h(5) m] m] m m])
  also have "dot A (dot (transpose_arr Li) W) = dot (dot A (transpose_arr Li)) W"
    by (rule dot_assoc [OF A Lit h(5) m m, symmetric])
  also have "dot Li (dot (dot A (transpose_arr Li)) W) = dot C W"
    unfolding C_def by (rule dot_assoc [OF h(3) is_array_dot' [OF A Lit m] h(5) m m, symmetric])
  finally show "dot (transpose_arr V) (dot A V) = diag_array Z" by (simp add: h(8) Z)
qed


lemma is_array_negative: "is_array a b X \<Longrightarrow> is_array a b (negative X)"
  by (simp add: is_array_def negative_def list_all_iff)

lemma negative_nth:
  "is_array a b X \<Longrightarrow> i < a \<Longrightarrow> j < b \<Longrightarrow> negative X ! i ! j = - (X ! i ! j)"
  by (simp add: negative_def is_array_length is_array_row)

lemma dot_negative_right:
  assumes X: "is_array a b X" and Y: "is_array b c Y" and b: "0 < b"
  shows "dot X (negative Y) = negative (dot X Y)"
proof (rule array_eqI)
  note nY = is_array_negative [OF Y]
  note XY = is_array_dot' [OF X Y b]
  show "is_array a c (dot X (negative Y))" by (rule is_array_dot' [OF X nY b])
  show "is_array a c (negative (dot X Y))" by (rule is_array_negative [OF XY])
  fix i j assume i: "i < a" and j: "j < c"
  have "dot X (negative Y) ! i ! j = sum_list (map (\<lambda>k. - (X ! i ! k * Y ! k ! j)) [0..<b])"
    unfolding dot_nth' [OF X nY b i j]
    using j by (intro sum_list_upt_cong) (simp add: negative_nth [OF Y])
  also have "\<dots> = - (dot X Y ! i ! j)"
    by (simp add: dot_nth' [OF X Y b i j] uminus_sum_list_map o_def)
  finally show "dot X (negative Y) ! i ! j = negative (dot X Y) ! i ! j"
    by (simp add: negative_nth [OF XY i j])
qed

lemma dot_negative_eye:
  assumes X: "is_array a b X" and b: "0 < b"
  shows "dot X (negative (eye b)) = negative X"
  by (simp add: dot_negative_right [OF X is_array_eye b] dot_eye_right [OF X b])

lemma sum_list_ends:
  "sum_list (map f [0..<Suc (Suc m)]) =
     f 0 + sum_list (map (\<lambda>k. f (Suc k)) [0..<m]) + (f (Suc m) :: real)"
proof -
  have "[0..<Suc (Suc m)] = 0 # map Suc [0..<m] @ [Suc m]"
    by (simp add: upt_conv_Cons map_Suc_upt del: upt_Suc) (simp add: upt_conv_Cons [symmetric])
  then show ?thesis by (simp add: o_def)
qed

lemma sub_kk_nth:
  assumes "is_array (Suc (Suc m)) (Suc (Suc m)) X" and "i < m" and "j < m"
  shows "sub_kk X ! i ! j = X ! Suc i ! Suc j"
  using assms by (simp add: sub_kk_def is_array_shape0 is_array_shape1)

lemma is_array_sub_kk:
  assumes "is_array (Suc (Suc m)) (Suc (Suc m)) X"
  shows "is_array m m (sub_kk X)"
  using assms by (simp add: sub_kk_def is_array_shape0 is_array_shape1)

lemma sub_kr_nth:
  assumes "is_array (Suc (Suc m)) (Suc (Suc m)) X" and "i < m" and "r < 2"
  shows "sub_kr X ! i ! r = X ! Suc i ! (if r = 0 then 0 else Suc m)"
  using assms by (simp add: sub_kr_def is_array_shape0 is_array_shape1)

lemma is_array_sub_kr:
  assumes "is_array (Suc (Suc m)) (Suc (Suc m)) X"
  shows "is_array m 2 (sub_kr X)"
  using assms by (simp add: sub_kr_def is_array_shape0)


lemma fdm_basis_entries:
  assumes n: "shape0 Ahat = Suc (Suc m)" and m: "0 < m"
    and se: "sym_eig la (sub_kk Ahat) (sub_kk Bhat) = (Z, V)" and V: "is_array m m V"
    and B: "is_array (Suc (Suc m)) (Suc (Suc m)) Bhat"
    and k: "k < Suc (Suc m)" and c: "c < Suc (Suc m)"
  shows "fdm_basis la Ahat Bhat ! k ! c =
    (if 1 \<le> c \<and> c \<le> m then (if 1 \<le> k \<and> k \<le> m then V ! (k - 1) ! (c - 1) else 0)
     else if 1 \<le> k \<and> k \<le> m
          then - (dot V (dot (transpose_arr V) (sub_kr Bhat)) ! (k - 1) ! (if c = 0 then 0 else 1))
          else if k = c then 1 else 0)"
proof -
  let ?n = "Suc (Suc m)"
  define S1 where "S1 = mk_array ?n ?n
      (\<lambda>i j. if 1 \<le> i \<and> i < ?n - 1 \<and> 1 \<le> j \<and> j < ?n - 1
             then V ! (i - 1) ! (j - 1) else eye ?n ! i ! j)"
  have S1: "is_array ?n ?n S1" by (simp add: S1_def)
  have S1n: "\<And>i j. i < ?n \<Longrightarrow> j < ?n \<Longrightarrow> S1 ! i ! j =
      (if 1 \<le> i \<and> i \<le> m \<and> 1 \<le> j \<and> j \<le> m then V ! (i - 1) ! (j - 1)
       else if i = j then 1 else 0)"
    by (auto simp: S1_def eye_nth)
  have kk: "sub_kk S1 = V"
  proof (rule array_eqI [OF is_array_sub_kk [OF S1] V])
    fix i j assume "i < m" "j < m"
    then show "sub_kk S1 ! i ! j = V ! i ! j"
      by (simp add: sub_kk_nth [OF S1] S1n)
  qed
  have rr: "sub_rr S1 = eye 2"
  proof (rule array_eqI [of 2 2])
    show "is_array 2 2 (sub_rr S1)" by (simp add: sub_rr_def)
    show "is_array 2 2 (eye 2)" by (rule is_array_eye)
    fix i j :: nat assume "i < 2" "j < 2"
    then show "sub_rr S1 ! i ! j = eye 2 ! i ! j"
      using m S1 by (auto simp: sub_rr_def S1n eye_nth is_array_shape0 is_array_shape1)
  qed
  let ?P = "dot (transpose_arr V) (sub_kr Bhat)"
  have P: "is_array m 2 ?P"
    by (rule is_array_dot' [OF is_array_transpose [OF V m] is_array_sub_kr [OF B] m])
  have Q: "is_array m 2 (dot V ?P)" by (rule is_array_dot' [OF V P m])
  have R: "dot (sub_kk S1) (dot (dot (transpose_arr (sub_kk S1)) (sub_kr Bhat)) (negative (sub_rr S1))) =
        negative (dot V ?P)"
    unfolding kk rr
    by (simp add: dot_negative_eye [OF P] dot_negative_right [OF V P m])
  have "fdm_basis la Ahat Bhat = mk_array ?n ?n
      (\<lambda>i j. if 1 \<le> i \<and> i < ?n - 1 \<and> (j = 0 \<or> j = ?n - 1)
             then negative (dot V ?P) ! (i - 1) ! (if j = 0 then 0 else 1) else S1 ! i ! j)"
    unfolding fdm_basis_def Let_def n se prod.case S1_def [symmetric] R using m by simp
  then show ?thesis
    using k c m by (auto simp: S1n negative_nth [OF Q])
qed


lemma sum_list_zero: "sum_list (map (\<lambda>k. 0::real) xs) = 0"
  by (induction xs) simp_all

lemma transformed_fdm_column:
  assumes n: "shape0 Ahat = Suc (Suc m)" and m: "0 < m"
    and se: "sym_eig la (sub_kk Ahat) (sub_kk Bhat) = (Z, V)" and V: "is_array m m V"
    and B: "is_array (Suc (Suc m)) (Suc (Suc m)) Bhat"
    and X: "is_array (Suc (Suc m)) (Suc (Suc m)) X"
    and i: "i < m" and c: "c < Suc (Suc m)"
  shows "transformed (fdm_basis la Ahat Bhat) X ! Suc i ! c =
     sum_list (map (\<lambda>k. V ! k ! i *
        sum_list (map (\<lambda>l. X ! Suc k ! l * fdm_basis la Ahat Bhat ! l ! c) [0..<Suc (Suc m)]))
       [0..<m])"
proof -
  let ?S = "fdm_basis la Ahat Bhat"
  let ?n = "Suc (Suc m)"
  note ent = fdm_basis_entries [OF n m se V B]
  have S: "is_array ?n ?n ?S" using is_array_fdm_basis [of Ahat la Bhat] by (simp add: n)
  have si: "Suc i < ?n" using i by simp
  have col: "?S ! 0 ! Suc i = 0" "?S ! Suc m ! Suc i = 0"
    "\<And>k. k < m \<Longrightarrow> ?S ! Suc k ! Suc i = V ! k ! i"
    using i by (simp_all add: ent)
  have "transformed ?S X ! Suc i ! c =
      sum_list (map (\<lambda>k. sum_list (map (\<lambda>l. ?S ! k ! Suc i * X ! k ! l * ?S ! l ! c) [0..<?n])) [0..<?n])"
    by (rule transformed_nth [OF S X _ si c]) simp
  also have "\<dots> = sum_list (map (\<lambda>k. ?S ! k ! Suc i *
                       sum_list (map (\<lambda>l. X ! k ! l * ?S ! l ! c) [0..<?n])) [0..<?n])"
    by (intro sum_list_upt_cong) (simp only: sum_list_const_mult mult.assoc)
  also have "\<dots> = sum_list (map (\<lambda>k. ?S ! Suc k ! Suc i *
                       sum_list (map (\<lambda>l. X ! Suc k ! l * ?S ! l ! c) [0..<?n])) [0..<m])"
    unfolding sum_list_ends col by simp
  also have "\<dots> = sum_list (map (\<lambda>k. V ! k ! i *
                       sum_list (map (\<lambda>l. X ! Suc k ! l * ?S ! l ! c) [0..<?n])) [0..<m])"
    by (intro sum_list_upt_cong) (simp add: col)
  finally show ?thesis .
qed

lemma transformed_fdm_interior:
  assumes n: "shape0 Ahat = Suc (Suc m)" and m: "0 < m"
    and se: "sym_eig la (sub_kk Ahat) (sub_kk Bhat) = (Z, V)" and V: "is_array m m V"
    and B: "is_array (Suc (Suc m)) (Suc (Suc m)) Bhat"
    and X: "is_array (Suc (Suc m)) (Suc (Suc m)) X"
    and i: "i < m" and j: "j < m"
  shows "transformed (fdm_basis la Ahat Bhat) X ! Suc i ! Suc j =
         dot (transpose_arr V) (dot (sub_kk X) V) ! i ! j"
proof -
  let ?S = "fdm_basis la Ahat Bhat"
  note ent = fdm_basis_entries [OF n m se V B]
  note Xkk = is_array_sub_kk [OF X]
  note XV = is_array_dot' [OF Xkk V m]
  have sj: "Suc j < Suc (Suc m)" using j by simp
  have col: "?S ! 0 ! Suc j = 0" "?S ! Suc m ! Suc j = 0"
    "\<And>l. l < m \<Longrightarrow> ?S ! Suc l ! Suc j = V ! l ! j"
    using j by (simp_all add: ent)
  have inner: "sum_list (map (\<lambda>l. X ! Suc k ! l * ?S ! l ! Suc j) [0..<Suc (Suc m)]) =
               dot (sub_kk X) V ! k ! j" if k: "k < m" for k
  proof -
    have "sum_list (map (\<lambda>l. X ! Suc k ! l * ?S ! l ! Suc j) [0..<Suc (Suc m)]) =
          sum_list (map (\<lambda>l. X ! Suc k ! Suc l * ?S ! Suc l ! Suc j) [0..<m])"
      unfolding sum_list_ends col by simp
    also have "\<dots> = sum_list (map (\<lambda>l. sub_kk X ! k ! l * V ! l ! j) [0..<m])"
      by (intro sum_list_upt_cong) (simp add: col sub_kk_nth [OF X k])
    finally show ?thesis by (simp add: dot_nth' [OF Xkk V m k j])
  qed
  have "transformed ?S X ! Suc i ! Suc j =
        sum_list (map (\<lambda>k. V ! k ! i * dot (sub_kk X) V ! k ! j) [0..<m])"
    unfolding transformed_fdm_column [OF n m se V B X i sj]
    by (intro sum_list_upt_cong) (simp only: inner)
  also have "\<dots> = dot (transpose_arr V) (dot (sub_kk X) V) ! i ! j"
    unfolding dot_nth' [OF is_array_transpose [OF V m] XV m i j]
    by (intro sum_list_upt_cong) (simp add: transpose_nth' [OF V i])
  finally show ?thesis .
qed


lemma transformed_fdm_mass_boundary:
  assumes n: "shape0 Ahat = Suc (Suc m)" and m: "0 < m"
    and se: "sym_eig la (sub_kk Ahat) (sub_kk Bhat) = (Z, V)" and V: "is_array m m V"
    and B: "is_array (Suc (Suc m)) (Suc (Suc m)) Bhat"
    and orth: "dot (transpose_arr V) (dot (sub_kk Bhat) V) = eye m"
    and i: "i < m" and c: "c = 0 \<or> c = Suc m"
  shows "transformed (fdm_basis la Ahat Bhat) Bhat ! Suc i ! c = 0"
proof -
  let ?S = "fdm_basis la Ahat Bhat"
  let ?P = "dot (transpose_arr V) (sub_kr Bhat)"
  let ?Q = "dot V ?P"
  define r :: nat where "r = (if c = 0 then 0 else 1)"
  have r: "r < 2" by (simp add: r_def)
  have cn: "c < Suc (Suc m)" using c by auto
  note ent = fdm_basis_entries [OF n m se V B]
  note Vt = is_array_transpose [OF V m]
  note Bkk = is_array_sub_kk [OF B]
  note Bkr = is_array_sub_kr [OF B]
  note P = is_array_dot' [OF Vt Bkr m]
  note Q = is_array_dot' [OF V P m]
  note BQ = is_array_dot' [OF Bkk Q m]
  have col: "?S ! 0 ! c = (if c = 0 then 1 else 0)" "?S ! Suc m ! c = (if c = 0 then 0 else 1)"
    "\<And>l. l < m \<Longrightarrow> ?S ! Suc l ! c = - (?Q ! l ! r)"
    using c m by (auto simp: ent r_def)
  have inner: "sum_list (map (\<lambda>l. Bhat ! Suc k ! l * ?S ! l ! c) [0..<Suc (Suc m)]) =
               sub_kr Bhat ! k ! r - dot (sub_kk Bhat) ?Q ! k ! r" if k: "k < m" for k
  proof -
    have "sum_list (map (\<lambda>l. Bhat ! Suc k ! l * ?S ! l ! c) [0..<Suc (Suc m)]) =
          Bhat ! Suc k ! 0 * ?S ! 0 ! c +
          sum_list (map (\<lambda>l. Bhat ! Suc k ! Suc l * ?S ! Suc l ! c) [0..<m]) +
          Bhat ! Suc k ! Suc m * ?S ! Suc m ! c"
      by (rule sum_list_ends)
    also have "sum_list (map (\<lambda>l. Bhat ! Suc k ! Suc l * ?S ! Suc l ! c) [0..<m]) =
          sum_list (map (\<lambda>l. - (sub_kk Bhat ! k ! l * ?Q ! l ! r)) [0..<m])"
      by (intro sum_list_upt_cong) (simp add: col sub_kk_nth [OF B k])
    also have "\<dots> = - (dot (sub_kk Bhat) ?Q ! k ! r)"
      by (simp add: dot_nth' [OF Bkk Q m k r] uminus_sum_list_map o_def)
    finally have e0: "sum_list (map (\<lambda>l. Bhat ! Suc k ! l * ?S ! l ! c) [0..<Suc (Suc m)]) =
          Bhat ! Suc k ! 0 * ?S ! 0 ! c + - (dot (sub_kk Bhat) ?Q ! k ! r) +
          Bhat ! Suc k ! Suc m * ?S ! Suc m ! c" .
    show ?thesis
      unfolding e0 col using c by (auto simp: sub_kr_nth [OF B k] r_def)
  qed
  have id: "dot (transpose_arr V) (dot (sub_kk Bhat) ?Q) = ?P"
  proof -
    have "dot (sub_kk Bhat) ?Q = dot (dot (sub_kk Bhat) V) ?P"
      by (rule dot_assoc [OF Bkk V P m m, symmetric])
    then have "dot (transpose_arr V) (dot (sub_kk Bhat) ?Q) =
               dot (dot (transpose_arr V) (dot (sub_kk Bhat) V)) ?P"
      by (simp add: dot_assoc [OF Vt is_array_dot' [OF Bkk V m] P m m])
    then show ?thesis by (simp add: orth dot_eye_left [OF P m])
  qed
  have "transformed ?S Bhat ! Suc i ! c =
        sum_list (map (\<lambda>k. V ! k ! i * (sub_kr Bhat ! k ! r - dot (sub_kk Bhat) ?Q ! k ! r)) [0..<m])"
    unfolding transformed_fdm_column [OF n m se V B B i cn]
    by (intro sum_list_upt_cong) (simp only: inner)
  also have "\<dots> = sum_list (map (\<lambda>k. transpose_arr V ! i ! k * sub_kr Bhat ! k ! r) [0..<m]) -
                   sum_list (map (\<lambda>k. transpose_arr V ! i ! k * dot (sub_kk Bhat) ?Q ! k ! r) [0..<m])"
    unfolding sum_list_subtractf [symmetric]
    by (intro sum_list_upt_cong) (simp add: transpose_nth' [OF V i] algebra_simps)
  also have "\<dots> = ?P ! i ! r - dot (transpose_arr V) (dot (sub_kk Bhat) ?Q) ! i ! r"
    by (simp only: dot_nth' [OF Vt Bkr m i r] dot_nth' [OF Vt BQ m i r])
  finally show ?thesis by (simp add: id)
qed


lemma semhat_mass_symmetric:
  assumes "is_array n q (tab_J el)" and "0 < q" and "i < n" and "j < n"
  shows "fst (snd (semhat el)) ! i ! j = fst (snd (semhat el)) ! j ! i"
proof -
  have n: "0 < n" using assms by simp
  have s: "shape0 (tab_J el) = n" "shape1 (tab_J el) = q"
    using assms n by (simp_all add: is_array_shape0 is_array_shape1)
  have "fst (snd (semhat el)) ! i ! j =
      sum_list (map (\<lambda>k. tab_J el ! i ! k * weights el ! k * tab_J el ! j ! k) [0..<q])"
    if "i < n" "j < n" for i j
    using that s assms(2) n
    by (simp add: semhat_def Let_def dot_nth) (rule sum_list_upt_cong, simp add: transpose_arr_nth multiply_def)
  then show ?thesis
    using assms by (simp add: mult_ac)
qed

lemma is_array_semhat_mass:
  "0 < shape1 (tab_J el) \<Longrightarrow>
   is_array (shape0 (tab_J el)) (shape0 (tab_J el)) (fst (snd (semhat el)))"
  using is_array_dot [of "multiply (tab_J el) (weights el)" "transpose_arr (tab_J el)"]
  by (simp add: semhat_def Let_def)

lemma fdm_setup_parts:
  assumes fs: "fdm_setup la fiat d = (Ahat, Bhat, Sfdm, Dfdm)"
    and D: "is_array n q (tab_D (fiat d))" and J: "is_array n q (tab_J (fiat d))"
    and q: "0 < q" and n: "0 < n"
  shows "is_array n n Ahat" and "is_array n n Bhat" and "is_array n n Sfdm"
    and "Sfdm = fdm_basis la Ahat Bhat"
    and "\<And>i j. i < n \<Longrightarrow> j < n \<Longrightarrow> Ahat ! i ! j = Ahat ! j ! i"
    and "\<And>i j. i < n \<Longrightarrow> j < n \<Longrightarrow> Bhat ! i ! j = Bhat ! j ! i"
proof -
  have A: "Ahat = fst (semhat (fiat d))" and B: "Bhat = fst (snd (semhat (fiat d)))"
    and S: "Sfdm = fdm_basis la Ahat Bhat"
    using fs by (auto simp: fdm_setup_def Let_def split: prod.splits)
  have sD: "shape0 (tab_D (fiat d)) = n" "shape1 (tab_D (fiat d)) = q"
    and sJ: "shape0 (tab_J (fiat d)) = n" "shape1 (tab_J (fiat d)) = q"
    using D J n by (simp_all add: is_array_shape0 is_array_shape1)
  show arrA: "is_array n n Ahat"
    using is_array_semhat [of "fiat d"] sD q by (simp add: A)
  show "is_array n n Bhat"
    using is_array_semhat_mass [of "fiat d"] sJ q by (simp add: B)
  show "is_array n n Sfdm"
    using is_array_fdm_basis [of Ahat la Bhat] arrA by (simp add: S is_array_shape0)
  show "Sfdm = fdm_basis la Ahat Bhat" by (rule S)
  show "\<And>i j. i < n \<Longrightarrow> j < n \<Longrightarrow> Ahat ! i ! j = Ahat ! j ! i"
    unfolding A by (rule semhat_symmetric [OF D q])
  show "\<And>i j. i < n \<Longrightarrow> j < n \<Longrightarrow> Bhat ! i ! j = Bhat ! j ! i"
    unfolding B by (rule semhat_mass_symmetric [OF J q])
qed

lemma diag_array_nth:
  "i < length Z \<Longrightarrow> j < length Z \<Longrightarrow> diag_array Z ! i ! j = (if i = j then Z ! i else 0)"
  by (simp add: diag_array_def)

text \<open>The transformed matrices with more than two nodes: the interior block of the
  mass matrix is the identity and the interior nodes do not couple with the
  endpoints; the interior block of the stiffness matrix is diagonal.\<close>

lemma fdm_transformed_blocks:
  assumes fs: "fdm_setup la fiat d = (Ahat, Bhat, Sfdm, Dfdm)"
    and D: "is_array (d + 1) q (tab_D (fiat d))" and J: "is_array (d + 1) q (tab_J (fiat d))"
    and q: "0 < q" and d: "1 < d"
    and la: "linalg_exact la (sub_kk Ahat) (sub_kk Bhat)"
    and i: "i \<le> d" and j: "j \<le> d"
  shows "i \<noteq> j \<Longrightarrow> (1 \<le> i \<and> i < d) \<or> (1 \<le> j \<and> j < d) \<Longrightarrow> transformed Sfdm Bhat ! i ! j = 0"
    and "1 \<le> i \<Longrightarrow> i < d \<Longrightarrow> transformed Sfdm Bhat ! i ! i = 1"
    and "i \<noteq> j \<Longrightarrow> 1 \<le> i \<Longrightarrow> i < d \<Longrightarrow> 1 \<le> j \<Longrightarrow> j < d \<Longrightarrow> transformed Sfdm Ahat ! i ! j = 0"
proof -
  obtain m where dm: "d = Suc m" and m: "0 < m" using d by (cases d) auto
  have n: "0 < d + 1" by simp
  note p = fdm_setup_parts [OF fs D J q n]
  have arrA: "is_array (Suc (Suc m)) (Suc (Suc m)) Ahat"
    and arrB: "is_array (Suc (Suc m)) (Suc (Suc m)) Bhat"
    using p(1,2) by (simp_all add: dm)
  have sA: "shape0 Ahat = Suc (Suc m)" using arrA by (simp add: is_array_shape0)
  obtain Z V where se: "sym_eig la (sub_kk Ahat) (sub_kk Bhat) = (Z, V)"
    by (cases "sym_eig la (sub_kk Ahat) (sub_kk Bhat)")
  note ex = sym_eig_exact [OF la is_array_sub_kk [OF arrA] is_array_sub_kk [OF arrB] m se]
  note int = transformed_fdm_interior [OF sA m se ex(1) arrB, folded p(4)]
  note bnd = transformed_fdm_mass_boundary [OF sA m se ex(1) arrB ex(2), folded p(4)]
  have symT: "\<And>i j. i < d + 1 \<Longrightarrow> j < d + 1 \<Longrightarrow>
      transformed Sfdm Bhat ! i ! j = transformed Sfdm Bhat ! j ! i"
    by (rule transformed_symmetric [OF p(3) p(2) n _ _ p(6)])
  have half: "transformed Sfdm Bhat ! a ! b = 0"
    if a: "1 \<le> a" "a < d" and b: "b \<le> d" and ab: "a \<noteq> b" for a b
  proof -
    obtain a' where a': "a = Suc a'" "a' < m" using a dm by (cases a) auto
    show ?thesis
    proof (cases "1 \<le> b \<and> b < d")
      case True
      then obtain b' where b': "b = Suc b'" "b' < m" using dm by (cases b) auto
      show ?thesis
        using ab a' b' by (simp add: int [OF arrB a'(2) b'(2)] ex(2) eye_nth)
    next
      case False
      then have "b = 0 \<or> b = Suc m" using b dm by auto
      then show ?thesis unfolding a'(1) by (rule bnd [OF a'(2)])
    qed
  qed
  show "i \<noteq> j \<Longrightarrow> (1 \<le> i \<and> i < d) \<or> (1 \<le> j \<and> j < d) \<Longrightarrow> transformed Sfdm Bhat ! i ! j = 0"
    using half [of i j] half [of j i] symT [of i j] i j by auto
  show "1 \<le> i \<Longrightarrow> i < d \<Longrightarrow> transformed Sfdm Bhat ! i ! i = 1"
  proof -
    assume "1 \<le> i" "i < d"
    then obtain i' where i': "i = Suc i'" "i' < m" using dm by (cases i) auto
    show ?thesis by (simp add: i' int [OF arrB i'(2) i'(2)] ex(2) eye_nth)
  qed
  show "i \<noteq> j \<Longrightarrow> 1 \<le> i \<Longrightarrow> i < d \<Longrightarrow> 1 \<le> j \<Longrightarrow> j < d \<Longrightarrow> transformed Sfdm Ahat ! i ! j = 0"
  proof -
    assume ij: "i \<noteq> j" and "1 \<le> i" "i < d" "1 \<le> j" "j < d"
    then obtain i' j' where i': "i = Suc i'" "i' < m" and j': "j = Suc j'" "j' < m"
      using dm by (cases i; cases j) auto
    show ?thesis
      using ij i' j' by (simp add: int [OF arrA i'(2) j'(2)] ex(3) diag_array_nth ex(4))
  qed
qed

lemma array_1x1: "is_array 1 1 X \<Longrightarrow> X = [[X ! 0 ! 0]]"
  by (cases X; simp add: is_array_def) (metis length_0_conv length_Suc_conv nth_Cons_0)

lemma linalg_scalar_exact:
  assumes A: "is_array 1 1 A" and B: "is_array 1 1 B" and pos: "0 < B ! 0 ! 0"
  shows "linalg_exact linalg_scalar A B"
proof -
  obtain a b where ab: "A = [[a]]" "B = [[b]]"
    using array_1x1 [OF A] array_1x1 [OF B] by blast
  have b: "0 < b" using pos ab by simp
  then have "sqrt b * sqrt b = b" "sqrt b \<noteq> 0" by simp_all
  then show ?thesis
    by (simp add: linalg_exact_def linalg_scalar_def ab Let_def dot_def transpose_arr_def
        mk_array_def shape0_def shape1_def eye_def diag_array_def is_array_def)
qed

lemma three_nodes_tabulation:
  "is_array (2 + 1) 3 (tab_D (fiat_three_nodes 2))" "is_array (2 + 1) 3 (tab_J (fiat_three_nodes 2))"
  "is_array (2 + 1) 2 (vert_D (fiat_three_nodes 2))"
  by (simp_all add: fiat_three_nodes_def is_array_def)

lemma fdm_setup_three_nodes:
  "fdm_setup la fiat_three_nodes 2 =
     (fst (semhat (fiat_three_nodes 2)), fst (snd (semhat (fiat_three_nodes 2))),
      fdm_basis la (fst (semhat (fiat_three_nodes 2))) (fst (snd (semhat (fiat_three_nodes 2)))),
      facet_derivative (fiat_three_nodes 2)
        (fdm_basis la (fst (semhat (fiat_three_nodes 2))) (fst (snd (semhat (fiat_three_nodes 2))))))"
  by (simp add: fdm_setup_def Let_def split_beta)

lemma three_nodes_linalg:
  "linalg_exact linalg_scalar (sub_kk (fst (semhat (fiat_three_nodes 2))))
     (sub_kk (fst (snd (semhat (fiat_three_nodes 2)))))"
proof -
  let ?A = "fst (semhat (fiat_three_nodes 2))"
  let ?B = "fst (snd (semhat (fiat_three_nodes 2)))"
  have pos: "0 < (2::nat) + 1" by simp
  note p = fdm_setup_parts [OF fdm_setup_three_nodes [of linalg_scalar] three_nodes_tabulation(1,2)
      zero_less_numeral pos]
  have A: "is_array (Suc (Suc 1)) (Suc (Suc 1)) ?A" and B: "is_array (Suc (Suc 1)) (Suc (Suc 1)) ?B"
    using p(1,2) by (simp_all add: eval_nat_numeral)
  have sJ: "shape0 (tab_J (fiat_three_nodes 2)) = 3" "shape1 (tab_J (fiat_three_nodes 2)) = 3"
    by (simp_all add: fiat_three_nodes_def shape0_def shape1_def)
  have "?B ! 1 ! 1 =
      sum_list (map (\<lambda>k. tab_J (fiat_three_nodes 2) ! 1 ! k * weights (fiat_three_nodes 2) ! k *
                        tab_J (fiat_three_nodes 2) ! 1 ! k) [0..<3])"
    by (simp add: semhat_def Let_def dot_nth sJ)
      (rule sum_list_upt_cong, simp add: transpose_arr_nth multiply_def sJ)
  also have "\<dots> = 8 / 15"
    by (simp add: fiat_three_nodes_def upt_conv_Cons del: upt_Suc)
  finally have "?B ! 1 ! 1 = 8 / 15" .
  then have "0 < sub_kk ?B ! 0 ! 0"
    by (simp add: sub_kk_nth [OF B])
  then show ?thesis
    by (rule linalg_scalar_exact [OF is_array_sub_kk [OF A] is_array_sub_kk [OF B]])
qed


section \<open>The stored mass matrix\<close>

text \<open>
  C7.  For every degree \<open>d \<ge> 1\<close>, entry \<open>0\<close> of the catalog is the same matrix
  for \<^verbatim>\<open>fdm_setup_cg\<close> and \<^verbatim>\<open>fdm_setup_ipdg\<close>: the transformed mass matrix
  \<open>S\<^sup>T Bhat S\<close> as \<^verbatim>\<open>numpy_to_petsc\<close> stores it with no dense index, that
  is, its diagonal and, off the diagonal, the two corner entries \<open>(0, d)\<close> and
  \<open>(d, 0)\<close> only.  By the construction of the eigenbasis the interior block of
  \<open>S\<^sup>T Bhat S\<close> is diagonal (it is the identity) and every off-diagonal entry in
  an interior row or an interior column is zero, so the only off-diagonal entries
  that can differ from zero are the two corners, and the stored matrix agrees with
  \<open>S\<^sup>T Bhat S\<close> in every entry.  The hypotheses say that FIAT tabulates
  \<open>d + 1\<close> shape functions, on at least one quadrature point and on the two
  vertices, and that, from degree \<open>2\<close> on, \<^verbatim>\<open>numpy.linalg\<close> is exact on the
  interior blocks (\<open>linalg_exact\<close>).
\<close>

theorem mass_entry_sparsity:
  assumes d: "1 \<le> d"
    and D: "is_array (d + 1) q (tab_D (fiat d))" and J: "is_array (d + 1) q (tab_J (fiat d))"
    and q: "0 < q"
    and V: "is_array (d + 1) 2 (vert_D (fiat d))"
    and fs: "fdm_setup la fiat d = (Ahat, Bhat, Sfdm, Dfdm)"
    and la: "1 < d \<Longrightarrow> linalg_exact la (sub_kk Ahat) (sub_kk Bhat)"
  shows "\<exists>Afdm_cg D_cg Afdm_dg D_dg B0.
      fdm_setup_cg la fiat d = Inr (Afdm_cg, D_cg) \<and>
      fdm_setup_ipdg la fiat d eta = Inr (Afdm_dg, D_dg) \<and>
      Afdm_cg ! 0 = B0 \<and> Afdm_dg ! 0 = B0 \<and>
      (\<forall>i j. stored B0 i j =
         (i \<le> d \<and> j \<le> d \<and> (i = j \<or> (i = 0 \<and> j = d) \<or> (i = d \<and> j = 0)))) \<and>
      (\<forall>i j. i \<le> d \<and> j \<le> d \<longrightarrow> aij_val B0 i j = transformed Sfdm Bhat ! i ! j) \<and>
      (\<forall>i j. i \<le> d \<and> j \<le> d \<and> i \<noteq> j \<and> ((1 \<le> i \<and> i < d) \<or> (1 \<le> j \<and> j < d)) \<longrightarrow>
         transformed Sfdm Bhat ! i ! j = 0) \<and>
      (\<forall>i. 1 \<le> i \<and> i < d \<longrightarrow> transformed Sfdm Bhat ! i ! i = 1)"
proof -
  let ?T = "transformed Sfdm Bhat"
  have n: "0 < d + 1" by simp
  have Dl: "length (tab_D (fiat d)) = d + 1" and Jl: "length (tab_J (fiat d)) = d + 1"
    using D J by (simp_all add: is_array_def)
  obtain B0 A00 A10 A01 A11 where cg:
    "fdm_setup_cg la fiat d = Inr ([B0, A00, A10, A01, A11], None)"
    "numpy_to_petsc ?T [] True = Inr B0"
    using fdm_setup_cg_catalog [OF fs Dl Jl n] by blast
  obtain B0' W00 W10 W01 W11 where dg:
    "fdm_setup_ipdg la fiat d eta = Inr ([B0', W00, W10, W01, W11], Some Dfdm)"
    "numpy_to_petsc ?T [] True = Inr B0'"
    using fdm_setup_ipdg_catalog [OF fs Dl Jl n V, of eta] by blast
  have same: "B0' = B0" using cg(2) dg(2) by simp
  have ent: "\<And>i j. aij_ent B0 (i, j) =
              (if i = d \<and> j = 0 then Some (?T ! d ! 0)
               else if i = 0 \<and> j = d then Some (?T ! 0 ! d)
               else if i = j \<and> i < d + 1 then Some (?T ! i ! i) else None)"
    using numpy_to_petsc_corners [OF transformed_arrays(2) [OF fs Dl Jl n] n] cg(2) by auto
  have zero: "?T ! i ! j = 0"
    if "i \<le> d" "j \<le> d" "i \<noteq> j" "(1 \<le> i \<and> i < d) \<or> (1 \<le> j \<and> j < d)" for i j
  proof -
    from that have "1 < d" by auto
    then show ?thesis
      using fdm_transformed_blocks(1) [OF fs D J q _ la that(1,2,3,4)] by simp
  qed
  have one: "?T ! i ! i = 1" if "1 \<le> i" "i < d" for i
  proof -
    from that have d1: "1 < d" and "i \<le> d" by auto
    then show ?thesis
      using fdm_transformed_blocks(2) [OF fs D J q d1 la [OF d1] _ _ that, of i] by simp
  qed
  have 1: "\<forall>i j. stored B0 i j =
         (i \<le> d \<and> j \<le> d \<and> (i = j \<or> (i = 0 \<and> j = d) \<or> (i = d \<and> j = 0)))"
    by (auto simp: stored_def ent)
  have 2: "\<forall>i j. i \<le> d \<and> j \<le> d \<longrightarrow> aij_val B0 i j = ?T ! i ! j"
  proof (intro allI impI)
    fix i j assume ij: "i \<le> d \<and> j \<le> d"
    show "aij_val B0 i j = ?T ! i ! j"
    proof (cases "i = j \<or> (i = 0 \<and> j = d) \<or> (i = d \<and> j = 0)")
      case True
      then show ?thesis using ij by (auto simp: aij_val_def ent)
    next
      case False
      then have "(1 \<le> i \<and> i < d) \<or> (1 \<le> j \<and> j < d)" and "i \<noteq> j" using ij by auto
      then have "?T ! i ! j = 0" using zero ij by blast
      then show ?thesis using False by (auto simp: aij_val_def ent)
    qed
  qed
  have 3: "\<forall>i j. i \<le> d \<and> j \<le> d \<and> i \<noteq> j \<and> ((1 \<le> i \<and> i < d) \<or> (1 \<le> j \<and> j < d)) \<longrightarrow>
         ?T ! i ! j = 0"
    using zero by blast
  have 4: "\<forall>i. 1 \<le> i \<and> i < d \<longrightarrow> ?T ! i ! i = 1"
    using one by blast
  show ?thesis
    using cg(1) dg(1) same 1 2 3 4 by simp
qed

theorem mass_entry_sparsity_witness:
  "1 \<le> (2::nat) \<and> is_array (2 + 1) 3 (tab_D (fiat_three_nodes 2)) \<and>
   is_array (2 + 1) 3 (tab_J (fiat_three_nodes 2)) \<and> (0::nat) < 3 \<and>
   is_array (2 + 1) 2 (vert_D (fiat_three_nodes 2)) \<and>
   linalg_exact linalg_scalar (sub_kk (fst (semhat (fiat_three_nodes 2))))
     (sub_kk (fst (snd (semhat (fiat_three_nodes 2))))) \<and>
   (\<exists>Afdm_cg D_cg Afdm_dg D_dg B0 Ahat Bhat Sfdm Dfdm.
      fdm_setup linalg_scalar fiat_three_nodes 2 = (Ahat, Bhat, Sfdm, Dfdm) \<and>
      fdm_setup_cg linalg_scalar fiat_three_nodes 2 = Inr (Afdm_cg, D_cg) \<and>
      fdm_setup_ipdg linalg_scalar fiat_three_nodes 2 9 = Inr (Afdm_dg, D_dg) \<and>
      Afdm_cg ! 0 = B0 \<and> Afdm_dg ! 0 = B0 \<and>
      stored B0 0 2 \<and> stored B0 1 1 \<and> \<not> stored B0 0 1 \<and> \<not> stored B0 2 1 \<and>
      transformed Sfdm Bhat ! 0 ! 1 = 0 \<and> transformed Sfdm Bhat ! 1 ! 0 = 0 \<and>
      transformed Sfdm Bhat ! 1 ! 2 = 0 \<and> transformed Sfdm Bhat ! 2 ! 1 = 0 \<and>
      transformed Sfdm Bhat ! 1 ! 1 = 1 \<and>
      aij_val B0 0 1 = transformed Sfdm Bhat ! 0 ! 1 \<and>
      aij_val B0 0 2 = transformed Sfdm Bhat ! 0 ! 2 \<and>
      aij_val B0 1 1 = 1)"
proof -
  let ?A = "fst (semhat (fiat_three_nodes 2))"
  let ?B = "fst (snd (semhat (fiat_three_nodes 2)))"
  let ?S = "fdm_basis linalg_scalar ?A ?B"
  let ?Df = "facet_derivative (fiat_three_nodes 2) ?S"
  from mass_entry_sparsity [OF one_le_numeral three_nodes_tabulation(1,2) zero_less_numeral
        three_nodes_tabulation(3) fdm_setup_three_nodes three_nodes_linalg, of 9]
  obtain Afdm_cg D_cg Afdm_dg D_dg B0 where all:
      "fdm_setup_cg linalg_scalar fiat_three_nodes 2 = Inr (Afdm_cg, D_cg) \<and>
       fdm_setup_ipdg linalg_scalar fiat_three_nodes 2 9 = Inr (Afdm_dg, D_dg) \<and>
       Afdm_cg ! 0 = B0 \<and> Afdm_dg ! 0 = B0 \<and>
       (\<forall>i j. stored B0 i j =
         (i \<le> 2 \<and> j \<le> 2 \<and> (i = j \<or> (i = 0 \<and> j = 2) \<or> (i = 2 \<and> j = 0)))) \<and>
       (\<forall>i j. i \<le> 2 \<and> j \<le> 2 \<longrightarrow> aij_val B0 i j = transformed ?S ?B ! i ! j) \<and>
       (\<forall>i j. i \<le> 2 \<and> j \<le> 2 \<and> i \<noteq> j \<and> ((1 \<le> i \<and> i < 2) \<or> (1 \<le> j \<and> j < 2)) \<longrightarrow>
         transformed ?S ?B ! i ! j = 0) \<and>
       (\<forall>i. 1 \<le> i \<and> i < 2 \<longrightarrow> transformed ?S ?B ! i ! i = 1)"
    apply (elim exE)
    apply (rule that)
    apply assumption
    done
  have r: "fdm_setup_cg linalg_scalar fiat_three_nodes 2 = Inr (Afdm_cg, D_cg)"
      "fdm_setup_ipdg linalg_scalar fiat_three_nodes 2 9 = Inr (Afdm_dg, D_dg)"
      "Afdm_cg ! 0 = B0" "Afdm_dg ! 0 = B0"
    and st: "\<And>i j. stored B0 i j =
         (i \<le> 2 \<and> j \<le> 2 \<and> (i = j \<or> (i = 0 \<and> j = 2) \<or> (i = 2 \<and> j = 0)))"
    and v: "\<And>i j. i \<le> 2 \<and> j \<le> 2 \<longrightarrow> aij_val B0 i j = transformed ?S ?B ! i ! j"
    and z: "\<And>i j. i \<le> 2 \<and> j \<le> 2 \<and> i \<noteq> j \<and> ((1 \<le> i \<and> i < 2) \<or> (1 \<le> j \<and> j < 2)) \<longrightarrow>
         transformed ?S ?B ! i ! j = 0"
    and o: "\<And>i. 1 \<le> i \<and> i < 2 \<longrightarrow> transformed ?S ?B ! i ! i = 1"
    using all by blast+
  have s: "stored B0 0 2" "stored B0 1 1" "\<not> stored B0 0 1" "\<not> stored B0 2 1"
    by (simp_all add: st)
  have zs: "transformed ?S ?B ! 0 ! 1 = 0" "transformed ?S ?B ! 1 ! 0 = 0"
    "transformed ?S ?B ! 1 ! 2 = 0" "transformed ?S ?B ! 2 ! 1 = 0"
    using z [of 0 1] z [of 1 0] z [of 1 2] z [of 2 1] by simp_all
  have os: "transformed ?S ?B ! 1 ! 1 = 1" using o [of 1] by simp
  have vs: "aij_val B0 0 1 = transformed ?S ?B ! 0 ! 1" "aij_val B0 0 2 = transformed ?S ?B ! 0 ! 2"
    "aij_val B0 1 1 = 1"
    using v [of 0 1] v [of 0 2] v [of 1 1] os by simp_all
  have "\<exists>Afdm_cg D_cg Afdm_dg D_dg B0 Ahat Bhat Sfdm Dfdm.
      fdm_setup linalg_scalar fiat_three_nodes 2 = (Ahat, Bhat, Sfdm, Dfdm) \<and>
      fdm_setup_cg linalg_scalar fiat_three_nodes 2 = Inr (Afdm_cg, D_cg) \<and>
      fdm_setup_ipdg linalg_scalar fiat_three_nodes 2 9 = Inr (Afdm_dg, D_dg) \<and>
      Afdm_cg ! 0 = B0 \<and> Afdm_dg ! 0 = B0 \<and>
      stored B0 0 2 \<and> stored B0 1 1 \<and> \<not> stored B0 0 1 \<and> \<not> stored B0 2 1 \<and>
      transformed Sfdm Bhat ! 0 ! 1 = 0 \<and> transformed Sfdm Bhat ! 1 ! 0 = 0 \<and>
      transformed Sfdm Bhat ! 1 ! 2 = 0 \<and> transformed Sfdm Bhat ! 2 ! 1 = 0 \<and>
      transformed Sfdm Bhat ! 1 ! 1 = 1 \<and>
      aij_val B0 0 1 = transformed Sfdm Bhat ! 0 ! 1 \<and>
      aij_val B0 0 2 = transformed Sfdm Bhat ! 0 ! 2 \<and>
      aij_val B0 1 1 = 1"
    using fdm_setup_three_nodes [of linalg_scalar] r s zs os vs by blast
  then show ?thesis
    using three_nodes_tabulation three_nodes_linalg by simp
qed


section \<open>The variants of the continuous formulation\<close>

text \<open>
  C3, as the specification states it, fails.  On the two-node element (degree
  \<open>1\<close>) the transformed stiffness matrix is \<open>[[1, -1], [-1, 1]]\<close>.  The variant
  for a constrained first endpoint and a free second endpoint, entry \<open>1 + 1 + 2 * 0\<close>
  of the catalog, still holds \<open>-1\<close> at \<open>(0, 1)\<close>, in the row of the
  constrained endpoint, where the matrix with that row and column set to zero
  (\<open>zero_constrained\<close>) holds \<open>0\<close>.
\<close>

theorem cg_variant_keeps_free_corner:
  "(case fdm_setup_cg linalg_unused fiat_two_nodes 1 of
      Inl e \<Rightarrow> False
    | Inr (Afdm, D) \<Rightarrow> aij_val (Afdm ! (1 + 1 + 2 * 0)) 0 1 = - 1) \<and>
   (case fdm_setup linalg_unused fiat_two_nodes 1 of
      (Ahat, Bhat, Sfdm, Dfdm) \<Rightarrow> zero_constrained (transformed Sfdm Ahat) 1 0 ! 0 ! 1 = 0)"
proof -
  let ?A = "[[1, - 1], [- 1, 1::real]]"
  have arr: "is_array 2 2 ?A" by (simp add: is_array_def)
  obtain B0 A00 A10 A01 A11 where cat:
    "fdm_setup_cg linalg_unused fiat_two_nodes 1 = Inr ([B0, A00, A10, A01, A11], None)"
    "apply_strong_bcs ?A 1 0 = Inr A10"
    using fdm_setup_cg_catalog [OF fdm_setup_two_nodes two_nodes_tabulation(3,2)]
    by (auto simp: transformed_two_nodes)
  obtain M where M: "apply_strong_bcs ?A 1 0 = Inr M"
    and ent: "aij_ent M (0, 1) = Some (strong_bcs_array ?A 1 0 ! 1 ! 0)"
    using apply_strong_bcs_entries [of 2 ?A 1 0] arr by auto
  have "strong_bcs_array ?A 1 0 ! 1 ! 0 = - 1"
    using strong_bcs_array_nth [OF arr, of 1 0 1 0] by simp
  then have "aij_val A10 0 1 = - 1"
    using M ent cat(2) by (simp add: aij_val_def)
  moreover have "zero_constrained ?A 1 0 ! 0 ! 1 = 0"
    by (simp add: zero_constrained_def shape0_def shape1_def)
  ultimately show ?thesis
    unfolding cat(1) fdm_setup_two_nodes by (simp add: transformed_two_nodes)
qed

text \<open>
  C3, amended.  For every degree \<open>d \<ge> 1\<close> and every combination of \<open>bc0\<close>,
  \<open>bc1\<close> in \<open>{0, 1}\<close>, entry \<open>1 + bc0 + 2 * bc1\<close> of the catalog of
  \<^verbatim>\<open>fdm_setup_cg\<close> is \<open>apply_strong_bcs A bc0 bc1\<close> for the transformed stiffness
  matrix \<open>A = S\<^sup>T Ahat S\<close>.  It stores the diagonal and the first and last rows
  and columns.  Its entry \<open>(i, j)\<close> is zero when \<open>i\<close> and \<open>j\<close> are two different
  indices of the zeroed block (the interior nodes together with each constrained
  endpoint), and is the entry of \<open>A\<close> otherwise: the diagonal is untouched, and so
  is every entry in the row or the column of a free endpoint, the coupling of a
  free endpoint with a constrained one included.  The hypotheses say that FIAT
  tabulates \<open>d + 1\<close> shape functions on at least one quadrature point.
\<close>

theorem cg_variant_entries:
  assumes d: "1 \<le> d"
    and D: "is_array (d + 1) m (tab_D (fiat d))" and m: "0 < m"
    and J: "length (tab_J (fiat d)) = d + 1"
    and fs: "fdm_setup la fiat d = (Ahat, Bhat, Sfdm, Dfdm)"
    and bc: "bc0 \<le> 1" "bc1 \<le> 1"
  shows "\<exists>Afdm M. fdm_setup_cg la fiat d = Inr (Afdm, None) \<and> length Afdm = 5 \<and>
           Afdm ! (1 + bc0 + 2 * bc1) = M \<and>
           apply_strong_bcs (transformed Sfdm Ahat) bc0 bc1 = Inr M \<and>
           (\<forall>i j. stored M i j =
              (i \<le> d \<and> j \<le> d \<and> (i = j \<or> i = 0 \<or> i = d \<or> j = 0 \<or> j = d))) \<and>
           (\<forall>i j. i \<le> d \<and> j \<le> d \<longrightarrow>
              aij_val M i j =
                (if i \<noteq> j \<and> zeroed_block (d + 1) bc0 bc1 i \<and> zeroed_block (d + 1) bc0 bc1 j
                 then 0 else transformed Sfdm Ahat ! i ! j))"
proof -
  let ?A = "transformed Sfdm Ahat"
  have n: "0 < d + 1" by simp
  have Dl: "length (tab_D (fiat d)) = d + 1" using D by (simp add: is_array_def)
  note st = fdm_setup_stiffness [OF fs D m J n]
  obtain B0 A00 A10 A01 A11 where cat:
    "fdm_setup_cg la fiat d = Inr ([B0, A00, A10, A01, A11], None)"
    "apply_strong_bcs ?A 0 0 = Inr A00" "apply_strong_bcs ?A 1 0 = Inr A10"
    "apply_strong_bcs ?A 0 1 = Inr A01" "apply_strong_bcs ?A 1 1 = Inr A11"
    using fdm_setup_cg_catalog [OF fs Dl J n] by blast
  obtain M where M: "apply_strong_bcs ?A bc0 bc1 = Inr M"
    and ent: "\<And>i j. aij_ent M (i, j) =
              (if i < d + 1 \<and> j < d + 1 \<and> (i = j \<or> i = 0 \<or> i = d + 1 - 1 \<or> j = 0 \<or> j = d + 1 - 1)
               then Some (if j = d + 1 - 1 \<or> (j = 0 \<and> i \<noteq> d + 1 - 1)
                          then strong_bcs_array ?A bc0 bc1 ! j ! i
                          else strong_bcs_array ?A bc0 bc1 ! i ! j)
               else None)"
    using apply_strong_bcs_entries [OF st(1) n, of bc0 bc1] by blast
  have cases: "(bc0 = 0 \<or> bc0 = 1) \<and> (bc1 = 0 \<or> bc1 = 1)" using bc by auto
  have sel: "[B0, A00, A10, A01, A11] ! (1 + bc0 + 2 * bc1) = M"
    using cases cat M by auto
  have nth: "\<And>i j. i < d + 1 \<Longrightarrow> j < d + 1 \<Longrightarrow> strong_bcs_array ?A bc0 bc1 ! i ! j =
           (if i \<noteq> j \<and> zeroed_block (d + 1) bc0 bc1 i \<and> zeroed_block (d + 1) bc0 bc1 j
            then 0 else ?A ! i ! j)"
    by (simp add: strong_bcs_array_nth [OF st(1) n] zeroed_block_def)
  have 1: "\<forall>i j. stored M i j =
              (i \<le> d \<and> j \<le> d \<and> (i = j \<or> i = 0 \<or> i = d \<or> j = 0 \<or> j = d))"
    by (auto simp: stored_def ent)
  have 2: "\<forall>i j. i \<le> d \<and> j \<le> d \<longrightarrow>
              aij_val M i j =
                (if i \<noteq> j \<and> zeroed_block (d + 1) bc0 bc1 i \<and> zeroed_block (d + 1) bc0 bc1 j
                 then 0 else ?A ! i ! j)"
  proof (intro allI impI)
    fix i j assume ij: "i \<le> d \<and> j \<le> d"
    then have lt: "i < d + 1" "j < d + 1" by simp_all
    show "aij_val M i j =
                (if i \<noteq> j \<and> zeroed_block (d + 1) bc0 bc1 i \<and> zeroed_block (d + 1) bc0 bc1 j
                 then 0 else ?A ! i ! j)"
    proof (cases "i = j \<or> i = 0 \<or> i = d \<or> j = 0 \<or> j = d")
      case True
      then show ?thesis
        using lt st(2) [OF lt] st(2) [OF lt(2) lt(1)]
        by (auto simp: aij_val_def ent nth [OF lt] nth [OF lt(2) lt(1)])
    next
      case False
      then show ?thesis
        using lt d cases by (auto simp: aij_val_def ent zeroed_block_def)
    qed
  qed
  show ?thesis
    using cat(1) sel M 1 2 by (intro exI [of _ "[B0, A00, A10, A01, A11]"] exI [of _ M]) simp
qed


theorem cg_variant_entries_witness:
  "1 \<le> (1::nat) \<and> is_array (1 + 1) 2 (tab_D (fiat_two_nodes 1)) \<and> (0::nat) < 2 \<and>
   length (tab_J (fiat_two_nodes 1)) = 1 + 1 \<and>
   fdm_setup linalg_unused fiat_two_nodes 1 =
     ([[1, - 1], [- 1, 1]], [[1 / 3, 1 / 6], [1 / 6, 1 / 3]], [[1, 0], [0, 1]], [[1, - 1], [- 1, 1]]) \<and>
   (1::nat) \<le> 1 \<and> (0::nat) \<le> 1 \<and>
   (\<exists>Afdm M. fdm_setup_cg linalg_unused fiat_two_nodes 1 = Inr (Afdm, None) \<and> length Afdm = 5 \<and>
      Afdm ! (1 + 1 + 2 * 0) = M \<and>
      stored M 0 1 \<and> \<not> stored M 0 2 \<and>
      aij_val M 0 0 = 1 \<and> aij_val M 0 1 = - 1 \<and> aij_val M 1 0 = - 1 \<and> aij_val M 1 1 = 1)"
proof -
  obtain Afdm M where cat: "fdm_setup_cg linalg_unused fiat_two_nodes 1 = Inr (Afdm, None)"
      "length Afdm = 5" "Afdm ! (1 + 1 + 2 * 0) = M"
    and st: "\<forall>i j. stored M i j = (i \<le> 1 \<and> j \<le> 1 \<and> (i = j \<or> i = 0 \<or> i = 1 \<or> j = 0 \<or> j = 1))"
    and v: "\<forall>i j. i \<le> 1 \<and> j \<le> 1 \<longrightarrow>
              aij_val M i j =
                (if i \<noteq> j \<and> zeroed_block (1 + 1) 1 0 i \<and> zeroed_block (1 + 1) 1 0 j
                 then 0 else [[1, - 1], [- 1, 1]] ! i ! j)"
    using cg_variant_entries [OF order_refl two_nodes_tabulation(1) zero_less_numeral
        two_nodes_tabulation(2) fdm_setup_two_nodes order_refl zero_le_one]
    unfolding transformed_two_nodes by blast
  have z: "\<not> zeroed_block (1 + 1) 1 0 1" by (simp add: zeroed_block_def)
  have s: "stored M 0 1" "\<not> stored M 0 2" using st by simp_all
  have "aij_val M 0 0 = 1" "aij_val M 0 1 = - 1" "aij_val M 1 0 = - 1" "aij_val M 1 1 = 1"
    using v z by simp_all
  with s cat show ?thesis
    using two_nodes_tabulation fdm_setup_two_nodes by simp
qed

section \<open>The variants of the interior-penalty formulation\<close>


lemma shape0_flip_first_column [simp]: "shape0 (flip_first_column D) = shape0 D"
  by (simp add: flip_first_column_def)




lemma two_nodes_vertices: "is_array (1 + 1) 2 (vert_D (fiat_two_nodes 1))"
  by (simp add: fiat_two_nodes_def is_array_def)






section \<open>Boundary condition flags\<close>








lemma mesh_two_cells_facets:
  "cell_to_facets mesh_two_cells =
     [[(0, 1), (1, - 1), (0, 3), (0, - 1)], [(1, - 1), (0, 2), (0, 3), (0, - 1)]]"
  by (simp add: cell_to_facets_def mesh_two_cells_def)

lemma flags_component_on_boundary:
  "get_bc_flags [DirichletBC [0] OnBoundary] [] mesh_two_cells 2 =
     Flags3 [[[1, 1, 1, 1], [0, 0, 0, 0]], [[1, 1, 1, 1], [0, 0, 0, 0]]]"
  by (simp add: get_bc_flags_def mesh_two_cells_facets bc_step_def comp_get_def base_flag_def
      comp_flag_def isin_def int_or_bool_def Let_def upt_conv_Cons del: upt_Suc)

lemma flags_on_boundary:
  "get_bc_flags [DirichletBC [] OnBoundary] [] mesh_two_cells 2 =
     Flags2 [[1, 0, 1, 1], [0, 1, 1, 1]]"
  by (simp add: get_bc_flags_def mesh_two_cells_facets bc_step_def comp_get_def base_flag_def
      isin_def Let_def)

text \<open>
  C5.  The claim is that an interior facet has flag \<open>0\<close> on every component,
  whatever the boundary conditions.  The code does not do so.  On the mesh of two
  cells, local facet \<open>1\<close> of cell \<open>0\<close> is interior (flag \<open>1\<close>, id \<open>-1\<close>).  With
  one Dirichlet condition on \<^verbatim>\<open>"on_boundary"\<close> restricted to component \<open>0\<close>,
  \<^verbatim>\<open>get_bc_flags\<close> returns flag \<open>1\<close> for this facet on component \<open>0\<close>; with the
  same condition on all components it returns \<open>0\<close>.
\<close>

theorem interior_facet_flagged_on_component:
  "cell_to_facets mesh_two_cells ! 0 ! 1 = (1, - 1) \<and>
   flag_at (get_bc_flags [DirichletBC [0] OnBoundary] [] mesh_two_cells 2) 0 0 1 = 1 \<and>
   flag_at (get_bc_flags [DirichletBC [] OnBoundary] [] mesh_two_cells 2) 0 0 1 = 0"
  by (simp add: flags_component_on_boundary flags_on_boundary mesh_two_cells_facets flag_at_def)






end
